theory Spec2Isabelle
  imports Complex_Main
begin

section \<open>Floating-point values\<close>

text \<open>
  The prices, spreads and statistics of the program are IEEE-754 doubles. A double is
  modelled as a finite real, one of the two infinities, or NaN. The special values follow
  IEEE-754 (NaN is absorbing, \<open>inf - inf\<close>, \<open>0 * inf\<close>, \<open>0 / 0\<close> and
  \<open>inf / inf\<close> are NaN, a non-zero finite value divided by zero is an infinity).
  Arithmetic on finite values is exact: rounding, overflow of finite operands and the
  sign of zero are not modelled.
\<close>

datatype fl = Fin real | PInf | NInf | NaN

fun isnan :: "fl \<Rightarrow> bool" where
  "isnan NaN = True"
| "isnan _ = False"

fun isinf :: "fl \<Rightarrow> bool" where
  "isinf PInf = True"
| "isinf NInf = True"
| "isinf _ = False"

fun isfinite :: "fl \<Rightarrow> bool" where
  "isfinite (Fin _) = True"
| "isfinite _ = False"

fun fneg :: "fl \<Rightarrow> fl" where
  "fneg (Fin a) = Fin (- a)"
| "fneg PInf = NInf"
| "fneg NInf = PInf"
| "fneg NaN = NaN"

fun fadd :: "fl \<Rightarrow> fl \<Rightarrow> fl" where
  "fadd NaN _ = NaN"
| "fadd _ NaN = NaN"
| "fadd (Fin a) (Fin b) = Fin (a + b)"
| "fadd (Fin _) PInf = PInf"
| "fadd (Fin _) NInf = NInf"
| "fadd PInf (Fin _) = PInf"
| "fadd NInf (Fin _) = NInf"
| "fadd PInf PInf = PInf"
| "fadd NInf NInf = NInf"
| "fadd PInf NInf = NaN"
| "fadd NInf PInf = NaN"

definition fsub :: "fl \<Rightarrow> fl \<Rightarrow> fl" where
  "fsub x y = fadd x (fneg y)"

text \<open>An infinity with the sign of a non-zero real; NaN for zero.\<close>

definition signed_inf :: "real \<Rightarrow> fl" where
  "signed_inf a = (if a = 0 then NaN else if 0 < a then PInf else NInf)"

fun fmul :: "fl \<Rightarrow> fl \<Rightarrow> fl" where
  "fmul NaN _ = NaN"
| "fmul _ NaN = NaN"
| "fmul (Fin a) (Fin b) = Fin (a * b)"
| "fmul (Fin a) PInf = signed_inf a"
| "fmul (Fin a) NInf = signed_inf (- a)"
| "fmul PInf (Fin b) = signed_inf b"
| "fmul NInf (Fin b) = signed_inf (- b)"
| "fmul PInf PInf = PInf"
| "fmul NInf NInf = PInf"
| "fmul PInf NInf = NInf"
| "fmul NInf PInf = NInf"

fun fdiv :: "fl \<Rightarrow> fl \<Rightarrow> fl" where
  "fdiv NaN _ = NaN"
| "fdiv _ NaN = NaN"
| "fdiv (Fin a) (Fin b) = (if b = 0 then signed_inf a else Fin (a / b))"
| "fdiv (Fin _) PInf = Fin 0"
| "fdiv (Fin _) NInf = Fin 0"
| "fdiv PInf (Fin b) = (if 0 \<le> b then PInf else NInf)"
| "fdiv NInf (Fin b) = (if 0 \<le> b then NInf else PInf)"
| "fdiv PInf PInf = NaN"
| "fdiv PInf NInf = NaN"
| "fdiv NInf PInf = NaN"
| "fdiv NInf NInf = NaN"

fun fsqrt :: "fl \<Rightarrow> fl" where
  "fsqrt (Fin a) = (if a < 0 then NaN else Fin (sqrt a))"
| "fsqrt PInf = PInf"
| "fsqrt NInf = NaN"
| "fsqrt NaN = NaN"

text \<open>The comparisons \<open>==\<close> and \<open><\<close> of doubles: false whenever an operand is NaN.\<close>

fun feq :: "fl \<Rightarrow> fl \<Rightarrow> bool" where
  "feq NaN _ = False"
| "feq _ NaN = False"
| "feq x y = (x = y)"

fun flt :: "fl \<Rightarrow> fl \<Rightarrow> bool" where
  "flt NaN _ = False"
| "flt _ NaN = False"
| "flt (Fin a) (Fin b) = (a < b)"
| "flt NInf (Fin _) = True"
| "flt NInf PInf = True"
| "flt (Fin _) PInf = True"
| "flt _ _ = False"

definition fmax :: "fl \<Rightarrow> fl \<Rightarrow> fl" where
  "fmax x y = (if flt x y then y else x)"

definition fmin :: "fl \<Rightarrow> fl \<Rightarrow> fl" where
  "fmin x y = (if flt y x then y else x)"

section \<open>Time-indexed series (pandas Series and DataFrame)\<close>

text \<open>
  A pandas \<open>Series\<close> with a time index is the list of its (timestamp, value) pairs in
  index order; timestamps are integers (an instant on some fixed grid). A missing value
  is NaN, as in pandas. The series the program analyses are columns of resampled bars,
  whose index is strictly increasing (\<open>series_ok\<close>).
\<close>

type_synonym timestamp = int
type_synonym series = "(timestamp \<times> fl) list"

definition series_ok :: "series \<Rightarrow> bool" where
  "series_ok s = sorted_wrt (<) (map fst s)"

definition series_values :: "series \<Rightarrow> fl list" where
  "series_values s = map snd s"

text \<open>\<open>s.dropna()\<close> and \<open>s.replace([np.inf, -np.inf], np.nan)\<close>.\<close>

definition dropna :: "series \<Rightarrow> series" where
  "dropna s = filter (\<lambda>p. \<not> isnan (snd p)) s"

definition replace_inf :: "series \<Rightarrow> series" where
  "replace_inf s = map (\<lambda>p. (fst p, if isinf (snd p) then NaN else snd p)) s"

text \<open>\<open>s.nunique()\<close>: the number of distinct values, NaN not counted.\<close>

definition nunique :: "series \<Rightarrow> nat" where
  "nunique s = length (remdups (filter (\<lambda>v. \<not> isnan v) (series_values s)))"

text \<open>
  \<open>pd.DataFrame({'p1': prices1, 'p2': prices2})\<close>: the rows are the union of the two
  indexes in increasing order, a column missing at a timestamp holds NaN there.
  \<open>df.dropna()\<close> keeps the rows with no NaN. \<open>data_frame\<close> merges the two series and
  is this frame for strictly increasing indexes (\<open>series_ok\<close>) only; what pandas does with
  a repeated or an unordered index is not modelled.
\<close>

type_synonym frame = "(timestamp \<times> fl \<times> fl) list"

fun data_frame :: "series \<Rightarrow> series \<Rightarrow> frame" where
  "data_frame [] ys = map (\<lambda>p. (fst p, NaN, snd p)) ys"
| "data_frame (x # xs) [] = map (\<lambda>p. (fst p, snd p, NaN)) (x # xs)"
| "data_frame (x # xs) (y # ys) =
     (if fst x < fst y then (fst x, snd x, NaN) # data_frame xs (y # ys)
      else if fst y < fst x then (fst y, NaN, snd y) # data_frame (x # xs) ys
      else (fst x, snd x, snd y) # data_frame xs ys)"

definition dropna_rows :: "frame \<Rightarrow> frame" where
  "dropna_rows df = filter (\<lambda>r. \<not> isnan (fst (snd r)) \<and> \<not> isnan (snd (snd r))) df"

definition column1 :: "frame \<Rightarrow> series" where
  "column1 df = map (\<lambda>r. (fst r, fst (snd r))) df"

definition column2 :: "frame \<Rightarrow> series" where
  "column2 df = map (\<lambda>r. (fst r, snd (snd r))) df"

section \<open>Aggregates\<close>

text \<open>
  Sum, mean and sample standard deviation (\<open>ddof = 1\<close>) of a list of doubles without
  NaN, as \<open>Series.mean\<close>, \<open>Series.std\<close>, \<open>Series.min\<close> and \<open>Series.max\<close> compute them
  after skipping NaN. The mean of no value and the deviation of fewer than two values
  are NaN.
\<close>

definition fsum :: "fl list \<Rightarrow> fl" where
  "fsum xs = foldl fadd (Fin 0) xs"

definition fl_mean :: "fl list \<Rightarrow> fl" where
  "fl_mean xs = fdiv (fsum xs) (Fin (real (length xs)))"

definition fl_std :: "fl list \<Rightarrow> fl" where
  "fl_std xs =
     (if length xs \<le> 1 then NaN
      else let m = fl_mean xs;
               sq = map (\<lambda>x. fmul (fsub x m) (fsub x m)) xs
           in fsqrt (fdiv (fsum sq) (Fin (real (length xs - 1)))))"

definition fl_minimum :: "fl list \<Rightarrow> fl" where
  "fl_minimum xs = (case xs of [] \<Rightarrow> NaN | x # r \<Rightarrow> foldl fmin x r)"

definition fl_maximum :: "fl list \<Rightarrow> fl" where
  "fl_maximum xs = (case xs of [] \<Rightarrow> NaN | x # r \<Rightarrow> foldl fmax x r)"

definition skipna :: "fl list \<Rightarrow> fl list" where
  "skipna xs = filter (\<lambda>v. \<not> isnan v) xs"

text \<open>\<open>s.pct_change()\<close> on a series without NaN: NaN first, then \<open>x[i] / x[i-1] - 1\<close>.\<close>

fun pct_change :: "fl list \<Rightarrow> fl list" where
  "pct_change [] = []"
| "pct_change (x # xs) = NaN # map (\<lambda>p. fsub (fdiv (snd p) (fst p)) (Fin 1)) (zip (x # xs) xs)"

section \<open>Python errors and the external estimators\<close>

datatype py_error = ValueError | LibraryError string

text \<open>
  \<open>scipy.stats.linregress\<close>, \<open>statsmodels.tsa.stattools.adfuller\<close> and the kernel of the
  pandas rolling correlation are not code of the repository. They are parameters of the
  model: any function may stand for them, and each of the two estimators may raise.
  \<open>adfuller\<close> is called inside \<open>try\<close>: its \<open>Inl\<close> carries the text of the caught exception.
\<close>

record linregress_result =
  slope :: fl
  intercept :: fl
  r_value :: fl
  p_value :: fl
  std_err :: fl

record adfuller_result =
  adf_stat :: fl
  adf_pvalue :: fl
  adf_usedlag :: int
  adf_nobs :: int
  adf_crit1 :: fl
  adf_crit5 :: fl
  adf_crit10 :: fl

record extern =
  linregress :: "fl list \<Rightarrow> fl list \<Rightarrow> py_error + linregress_result"
  adfuller :: "fl list \<Rightarrow> string + adfuller_result"
  window_corr :: "fl list \<Rightarrow> fl list \<Rightarrow> fl"

section \<open>Rolling windows\<close>

text \<open>
  \<open>s.rolling(window=w)\<close> raises \<open>ValueError\<close> for a negative \<open>w\<close>. Otherwise position
  \<open>i\<close> aggregates the \<open>w\<close> values ending at \<open>i\<close>; \<open>min_periods\<close> defaults to \<open>w\<close> and
  pandas reads an infinite value as missing, so the result is NaN where fewer than \<open>w\<close>
  values are available, where the window holds a NaN or an infinity, and for \<open>w = 0\<close>.
\<close>

definition window_at :: "nat \<Rightarrow> 'a list \<Rightarrow> nat \<Rightarrow> 'a list" where
  "window_at w xs i = take w (drop (Suc i - w) xs)"

definition rolling :: "int \<Rightarrow> (fl list \<Rightarrow> fl) \<Rightarrow> fl list \<Rightarrow> py_error + fl list" where
  "rolling window agg xs =
     (if window < 0 then Inl ValueError
      else let w = nat window in
        Inr (map (\<lambda>i. if w = 0 \<or> Suc i < w \<or> list_ex (\<lambda>v. \<not> isfinite v) (window_at w xs i)
                        then NaN else agg (window_at w xs i))
                 [0..<length xs]))"

definition rolling2 ::
  "int \<Rightarrow> (fl list \<Rightarrow> fl list \<Rightarrow> fl) \<Rightarrow> fl list \<Rightarrow> fl list \<Rightarrow> py_error + fl list" where
  "rolling2 window agg xs ys =
     (if window < 0 then Inl ValueError
      else let w = nat window in
        Inr (map (\<lambda>i. if w = 0 \<or> Suc i < w
                           \<or> list_ex (\<lambda>v. \<not> isfinite v) (window_at w xs i)
                           \<or> list_ex (\<lambda>v. \<not> isfinite v) (window_at w ys i)
                        then NaN else agg (window_at w xs i) (window_at w ys i))
                 [0..<length xs]))"

section \<open>analytics.py\<close>

subsection \<open>\<open>is_plot_safe\<close>\<close>

definition is_plot_safe :: "series \<Rightarrow> int \<Rightarrow> bool" where
  "is_plot_safe s min_points =
     (if int (length s) < min_points then False
      else if list_ex isnan (series_values s) \<or> list_ex isinf (series_values s) then False
      else if nunique s \<le> 1 then False
      else True)"

subsection \<open>\<open>QuantAnalytics\<close>\<close>

text \<open>
  \<open>compute_basic_stats\<close> returns \<open>{}\<close> (here \<open>None\<close>) for fewer than two prices, else
  the six statistics.
\<close>

record 'a basic_stats =
  st_mean :: 'a
  st_std :: 'a
  st_min :: 'a
  st_max :: 'a
  st_last :: 'a
  st_volatility :: 'a

definition compute_basic_stats :: "series \<Rightarrow> fl basic_stats option" where
  "compute_basic_stats prices =
     (if length prices < 2 then None
      else
        let vol = fl_std (skipna (pct_change (series_values prices)));
            volatility = (if \<not> isnan vol \<and> isfinite vol then fmul vol (Fin (sqrt 252)) else Fin 0)
        in Some \<lparr> st_mean = fl_mean (skipna (series_values prices)),
                  st_std = fl_std (skipna (series_values prices)),
                  st_min = fl_minimum (skipna (series_values prices)),
                  st_max = fl_maximum (skipna (series_values prices)),
                  st_last = last (series_values prices),
                  st_volatility = volatility \<rparr>)"

text \<open>
  \<open>compute_ols_hedge_ratio\<close>: a static method that \<open>analyze_pair\<close> does not call (it has
  its own copy of the regression, with other defaults).
\<close>

definition compute_ols_hedge_ratio ::
  "extern \<Rightarrow> series \<Rightarrow> series \<Rightarrow> py_error + (fl \<times> fl)" where
  "compute_ols_hedge_ratio L prices1 prices2 =
     (if length prices1 < 10 \<or> length prices2 < 10 then Inr (Fin 0, Fin 0)
      else
        let df = dropna_rows (data_frame prices1 prices2) in
        if length df < 10 then Inr (Fin 0, Fin 0)
        else
          (case linregress L (series_values (column2 df)) (series_values (column1 df)) of
             Inl e \<Rightarrow> Inl e
           | Inr res \<Rightarrow> Inr (slope res, fmul (r_value res) (r_value res))))"

text \<open>
  The rolling z-score. \<open>rolling_std.replace(0, np.nan)\<close> turns a deviation equal to zero
  into NaN; the quotient is taken position by position (the three series share one
  index); infinities become NaN and NaN positions are dropped.
\<close>

definition replace_zero :: "fl list \<Rightarrow> fl list" where
  "replace_zero xs = map (\<lambda>v. if feq v (Fin 0) then NaN else v) xs"

definition zscore_points :: "series \<Rightarrow> fl list \<Rightarrow> fl list \<Rightarrow> series" where
  "zscore_points s rolling_mean rolling_std =
     map (\<lambda>i. (fst (s ! i), fdiv (fsub (snd (s ! i)) (rolling_mean ! i)) (rolling_std ! i)))
       [0..<length s]"


text \<open>
  \<open>augmented_dickey_fuller_test\<close>: an error marker below 12 points; otherwise the test
  of the library, an exception of which is caught and reported as an error marker too.
\<close>

record 'a adf_fields =
  adf_statistic :: 'a
  adf_p_value :: 'a
  used_lag :: int
  n_observations :: int
  critical_1 :: 'a
  critical_5 :: 'a
  critical_10 :: 'a
  is_stationary :: bool

datatype 'a adf_block = Adf_error string | Adf_report "'a adf_fields"

definition augmented_dickey_fuller_test :: "extern \<Rightarrow> series \<Rightarrow> fl adf_block" where
  "augmented_dickey_fuller_test L s =
     (if length s < 12 then Adf_error ''Insufficient data for ADF test''
      else
        (case adfuller L (series_values (dropna s)) of
           Inl msg \<Rightarrow> Adf_error msg
         | Inr res \<Rightarrow>
             Adf_report \<lparr> adf_statistic = adf_stat res,
                          adf_p_value = adf_pvalue res,
                          used_lag = adf_usedlag res,
                          n_observations = adf_nobs res,
                          critical_1 = adf_crit1 res,
                          critical_5 = adf_crit5 res,
                          critical_10 = adf_crit10 res,
                          is_stationary = flt (adf_pvalue res) (Fin (5 / 100)) \<rparr>))"

subsection \<open>The helpers of \<open>analyze_pair\<close>\<close>

text \<open>
  \<open>series_to_list_safe\<close>: the empty list unless the series is plot-safe with at least
  three points; else its points without NaN and infinities, or the empty list when fewer
  than two are left. The rendering of the timestamp as text is left out.
\<close>

definition series_to_list_safe :: "series \<Rightarrow> (timestamp \<times> fl) list" where
  "series_to_list_safe s =
     (if \<not> is_plot_safe s 3 then []
      else
        let result = filter (\<lambda>p. \<not> (isnan (snd p) \<or> isinf (snd p))) s
        in if length result < 2 then [] else result)"

text \<open>\<open>sanitize_value\<close> on a float or \<open>None\<close>, and \<open>sanitize_dict\<close> on the two dictionaries.\<close>

definition sanitize_value :: "fl option \<Rightarrow> fl option" where
  "sanitize_value v =
     (case v of None \<Rightarrow> None
      | Some x \<Rightarrow> if isnan x \<or> isinf x then None else Some x)"

definition sanitize_stats :: "fl basic_stats option \<Rightarrow> fl option basic_stats option" where
  "sanitize_stats d =
     map_option (\<lambda>b. \<lparr> st_mean = sanitize_value (Some (st_mean b)),
                        st_std = sanitize_value (Some (st_std b)),
                        st_min = sanitize_value (Some (st_min b)),
                        st_max = sanitize_value (Some (st_max b)),
                        st_last = sanitize_value (Some (st_last b)),
                        st_volatility = sanitize_value (Some (st_volatility b)) \<rparr>) d"

definition sanitize_adf :: "fl adf_block \<Rightarrow> fl option adf_block" where
  "sanitize_adf d =
     (case d of
        Adf_error msg \<Rightarrow> Adf_error msg
      | Adf_report a \<Rightarrow>
          Adf_report \<lparr> adf_statistic = sanitize_value (Some (adf_statistic a)),
                       adf_p_value = sanitize_value (Some (adf_p_value a)),
                       used_lag = used_lag a,
                       n_observations = n_observations a,
                       critical_1 = sanitize_value (Some (critical_1 a)),
                       critical_5 = sanitize_value (Some (critical_5 a)),
                       critical_10 = sanitize_value (Some (critical_10 a)),
                       is_stationary = is_stationary a \<rparr>)"

text \<open>The last element of a series, \<open>s.iloc[-1] if len(s) > 0 else None\<close>.\<close>

definition last_value :: "series \<Rightarrow> fl option" where
  "last_value s = (if 0 < length s then Some (snd (last s)) else None)"

text \<open>Decimal rendering of an integer, as an f-string prints it.\<close>

function str_nat :: "nat \<Rightarrow> string" where
  "str_nat n =
     (if n < 10 then [''0123456789'' ! n]
      else str_nat (n div 10) @ [''0123456789'' ! (n mod 10)])"
  by pat_completeness auto
termination
  by (relation "measure (\<lambda>n. n)") auto

definition str_int :: "int \<Rightarrow> string" where
  "str_int i = (if i < 0 then CHR ''-'' # str_nat (nat (- i)) else str_nat (nat i))"

text \<open>
  A dictionary literal \<open>{k1: v1, k2: v2, k3: v3}\<close>: a later entry with an earlier key
  replaces its value and keeps its place.
\<close>

fun dict_set :: "('k \<times> 'v) list \<Rightarrow> 'k \<Rightarrow> 'v \<Rightarrow> ('k \<times> 'v) list" where
  "dict_set [] k v = [(k, v)]"
| "dict_set (p # ps) k v = (if fst p = k then (k, v) # ps else p # dict_set ps k v)"

definition dict_literal :: "('k \<times> 'v) list \<Rightarrow> ('k \<times> 'v) list" where
  "dict_literal kvs = foldl (\<lambda>d p. dict_set d (fst p) (snd p)) [] kvs"

subsection \<open>\<open>PairAnalysis.analyze_pair\<close>\<close>

record analysis =
  symbol1 :: string
  symbol2 :: string
  hedge_ratio :: "fl option"
  r_squared :: "fl option"
  current_spread :: "fl option"
  current_zscore :: "fl option"
  current_correlation :: "fl option"
  stats :: "(string \<times> fl option basic_stats option) list"
  adf_test :: "fl option adf_block"
  series_spread :: "(timestamp \<times> fl) list"
  series_zscore :: "(timestamp \<times> fl) list"
  series_correlation :: "(timestamp \<times> fl) list"

text \<open>
  The dictionary returned: either the single key \<open>error\<close> with its message, or the
  twelve analysis fields.
\<close>

datatype analysis_result = Insufficient_data string | Analysis analysis

definition result_keys :: "analysis_result \<Rightarrow> string list" where
  "result_keys r =
     (case r of
        Insufficient_data _ \<Rightarrow> [''error'']
      | Analysis _ \<Rightarrow>
          [''symbol1'', ''symbol2'', ''hedge_ratio'', ''r_squared'', ''current_spread'',
           ''current_zscore'', ''current_correlation'', ''stats'', ''adf_test'', ''series''])"

text \<open>Step 1: the aligned frame and the required length.\<close>

definition aligned_frame :: "series \<Rightarrow> series \<Rightarrow> frame" where
  "aligned_frame prices1 prices2 = dropna_rows (data_frame prices1 prices2)"

definition insufficient_message :: "nat \<Rightarrow> int \<Rightarrow> string" where
  "insufficient_message n min_required =
     ''Insufficient aligned data: '' @ str_nat n @ '' points, need at least ''
       @ str_int min_required"

text \<open>
  The aligned count in the words of the specification: the number of timestamps at which
  both series have a value that is not missing.
\<close>

definition aligned_count :: "series \<Rightarrow> series \<Rightarrow> nat" where
  "aligned_count prices1 prices2 =
     card {t. \<exists>v1 v2. (t, v1) \<in> set prices1 \<and> (t, v2) \<in> set prices2
                \<and> \<not> isnan v1 \<and> \<not> isnan v2}"

text \<open>Step 2: the hedge ratio, the spread, the rolling z-score and the rolling correlation.\<close>

definition hedge_stage :: "extern \<Rightarrow> frame \<Rightarrow> py_error + (fl \<times> fl)" where
  "hedge_stage L df_aligned =
     (if length (column1 df_aligned) < 10 then Inr (Fin 1, Fin 0)
      else
        (case linregress L (series_values (column2 df_aligned))
                           (series_values (column1 df_aligned)) of
           Inl e \<Rightarrow> Inl e
         | Inr res \<Rightarrow> Inr (slope res, fmul (r_value res) (r_value res))))"

definition spread_stage :: "frame \<Rightarrow> fl \<Rightarrow> series" where
  "spread_stage df_aligned hedge =
     dropna (replace_inf
       (map (\<lambda>r. (fst r, fsub (fst (snd r)) (fmul hedge (snd (snd r))))) df_aligned))"

definition zscore_stage :: "series \<Rightarrow> int \<Rightarrow> py_error + series" where
  "zscore_stage spread window =
     (if window \<le> int (length spread) then
        (case rolling window fl_mean (series_values spread) of
           Inl e \<Rightarrow> Inl e
         | Inr rolling_mean \<Rightarrow>
            (case rolling window fl_std (series_values spread) of
               Inl e \<Rightarrow> Inl e
             | Inr rolling_std \<Rightarrow>
                 let rolling_std = replace_zero rolling_std;
                     zscore = zscore_points spread rolling_mean rolling_std
                 in Inr (dropna (replace_inf zscore))))
      else Inr [])"

definition correlation_stage :: "extern \<Rightarrow> frame \<Rightarrow> int \<Rightarrow> py_error + series" where
  "correlation_stage L df_aligned window =
     (if window \<le> int (length df_aligned) then
        (case rolling2 window (window_corr L) (series_values (column1 df_aligned))
                (series_values (column2 df_aligned)) of
           Inl e \<Rightarrow> Inl e
         | Inr c \<Rightarrow> Inr (dropna (zip (map fst df_aligned) c)))
      else Inr [])"

text \<open>Step 3: the result dictionary, its series gated by \<open>series_to_list_safe\<close>.\<close>

definition build_result ::
  "extern \<Rightarrow> string \<Rightarrow> string \<Rightarrow> frame \<Rightarrow> fl \<Rightarrow> fl \<Rightarrow> series \<Rightarrow> series \<Rightarrow> series \<Rightarrow> analysis" where
  "build_result L sym1 sym2 df_aligned hedge rsq spread zscore correlation =
     (let stats1 = compute_basic_stats (column1 df_aligned);
          stats2 = compute_basic_stats (column2 df_aligned);
          spread_stats = compute_basic_stats spread;
          adf_result = augmented_dickey_fuller_test L spread
      in \<lparr> symbol1 = sym1,
           symbol2 = sym2,
           hedge_ratio = sanitize_value (Some hedge),
           r_squared = sanitize_value (Some rsq),
           current_spread = sanitize_value (last_value spread),
           current_zscore = sanitize_value (last_value zscore),
           current_correlation = sanitize_value (last_value correlation),
           stats = dict_literal [(sym1, sanitize_stats stats1), (sym2, sanitize_stats stats2),
                                 (''spread'', sanitize_stats spread_stats)],
           adf_test = sanitize_adf adf_result,
           series_spread = series_to_list_safe spread,
           series_zscore = series_to_list_safe zscore,
           series_correlation = series_to_list_safe correlation \<rparr>)"

definition analyze_pair ::
  "extern \<Rightarrow> string \<Rightarrow> string \<Rightarrow> series \<Rightarrow> series \<Rightarrow> int \<Rightarrow> py_error + analysis_result" where
  "analyze_pair L sym1 sym2 prices1 prices2 window =
     (let df_aligned = aligned_frame prices1 prices2;
          min_required = max 5 window
      in if int (length df_aligned) < min_required
         then Inr (Insufficient_data (insufficient_message (length df_aligned) min_required))
         else
           (case hedge_stage L df_aligned of
              Inl e \<Rightarrow> Inl e
            | Inr hr \<Rightarrow>
                let spread = spread_stage df_aligned (fst hr) in
                (case zscore_stage spread window of
                   Inl e \<Rightarrow> Inl e
                 | Inr zscore \<Rightarrow>
                     (case correlation_stage L df_aligned window of
                        Inl e \<Rightarrow> Inl e
                      | Inr correlation \<Rightarrow>
                          Inr (Analysis (build_result L sym1 sym2 df_aligned (fst hr) (snd hr)
                                           spread zscore correlation))))))"

section \<open>data_storage.py\<close>

text \<open>
  A tick and a row of an OHLCV table. Timestamps count milliseconds. The SQLite table
  that \<open>resample_to_ohlcv\<close> also writes is read by no operation and is left out.
\<close>

record tick =
  tick_symbol :: string
  tick_timestamp :: timestamp
  tick_price :: fl
  tick_quantity :: fl

record bar =
  bar_ts :: timestamp
  bar_open :: fl
  bar_high :: fl
  bar_low :: fl
  bar_close :: fl
  bar_volume :: fl

text \<open>
  Dictionaries keep their keys in insertion order. \<open>tick_buffer\<close> is a
  \<open>defaultdict\<close> of bounded deques, \<open>resampled_data\<close> a \<open>defaultdict\<close> of
  dictionaries from timeframe to table.
\<close>

record storage =
  tick_buffer :: "(string \<times> tick list) list"
  resampled_data :: "(string \<times> (string \<times> bar list) list) list"

definition init_storage :: storage where
  "init_storage = \<lparr> tick_buffer = [], resampled_data = [] \<rparr>"

text \<open>
  \<open>d[k]\<close> on a \<open>defaultdict\<close>: a missing key is inserted with the default value before
  it is returned.
\<close>

definition dd_get :: "'v \<Rightarrow> ('k \<times> 'v) list \<Rightarrow> 'k \<Rightarrow> ('k \<times> 'v) list \<times> 'v" where
  "dd_get dflt d k =
     (case map_of d k of Some v \<Rightarrow> (d, v) | None \<Rightarrow> (d @ [(k, dflt)], dflt))"

text \<open>\<open>deque(maxlen=10000).append\<close>: append on the right, then drop one item on the left
  when the deque is over its length.\<close>

definition maxlen :: nat where
  "maxlen = 10000"

definition deque_append :: "'a list \<Rightarrow> 'a \<Rightarrow> 'a list" where
  "deque_append dq x = (let d = dq @ [x] in if maxlen < length d then tl d else d)"

definition add_tick :: "storage \<Rightarrow> tick \<Rightarrow> storage" where
  "add_tick st t =
     (let symbol = tick_symbol t;
          got = dd_get [] (tick_buffer st) symbol
      in st \<lparr> tick_buffer := dict_set (fst got) symbol (deque_append (snd got) t) \<rparr>)"

text \<open>The slice \<open>xs[k:]\<close> of Python.\<close>

definition slice_from :: "'a list \<Rightarrow> int \<Rightarrow> 'a list" where
  "slice_from xs k =
     (if k < 0 then drop (nat (int (length xs) + k)) xs else drop (nat k) xs)"

definition get_recent_ticks :: "storage \<Rightarrow> string \<Rightarrow> int \<Rightarrow> storage \<times> tick list" where
  "get_recent_ticks st symbol limit =
     (let got = dd_get [] (tick_buffer st) symbol;
          ticks = snd got
      in (st \<lparr> tick_buffer := fst got \<rparr>,
          if limit < int (length ticks) then slice_from ticks (- limit) else ticks))"

definition get_all_symbols :: "storage \<Rightarrow> string list" where
  "get_all_symbols st = map fst (tick_buffer st)"

text \<open>
  \<open>df.resample(f'{seconds}s').agg(...)\<close>: the buckets have the width of \<open>seconds\<close> and
  start at the midnight before the earliest tick (\<open>origin='start_day'\<close>). The rows are
  first sorted by timestamp, ticks of one timestamp staying in buffer order (a stable
  sort); \<open>first\<close>, \<open>max\<close>, \<open>min\<close> and \<open>last\<close> skip NaN prices and are NaN when none is left,
  \<open>sum\<close> skips NaN quantities. Only the buckets that hold a tick are
  listed: pandas also emits the empty buckets in between, with a NaN close, and
  \<open>dropna(subset=['close'])\<close> removes them again. A width that is not positive is
  refused with \<open>ValueError\<close>.
\<close>

definition day_ms :: int where
  "day_ms = 86400000"

definition bucket_start :: "int \<Rightarrow> int \<Rightarrow> timestamp \<Rightarrow> timestamp" where
  "bucket_start origin width t = origin + ((t - origin) div width) * width"

definition make_bar :: "timestamp \<Rightarrow> tick list \<Rightarrow> bar" where
  "make_bar k rows =
     (let ps = skipna (map tick_price rows)
      in \<lparr> bar_ts = k,
           bar_open = (if ps = [] then NaN else hd ps),
           bar_high = fl_maximum ps,
           bar_low = fl_minimum ps,
           bar_close = (if ps = [] then NaN else last ps),
           bar_volume = fsum (skipna (map tick_quantity rows)) \<rparr>)"

definition resample_agg :: "tick list \<Rightarrow> int \<Rightarrow> bar list" where
  "resample_agg ticks seconds =
     (let width = seconds * 1000;
          rows = sort_key tick_timestamp ticks;
          t_min = Min (set (map tick_timestamp rows));
          origin = (t_min div day_ms) * day_ms;
          bucket = (\<lambda>t. bucket_start origin width (tick_timestamp t));
          buckets = sort (remdups (map bucket rows))
      in map (\<lambda>k. make_bar k (filter (\<lambda>t. bucket t = k) rows)) buckets)"

definition dropna_close :: "bar list \<Rightarrow> bar list" where
  "dropna_close df = filter (\<lambda>b. \<not> isnan (bar_close b)) df"

definition resample_to_ohlcv ::
  "storage \<Rightarrow> string \<Rightarrow> string \<Rightarrow> int \<Rightarrow> storage \<times> (py_error + bar list option)" where
  "resample_to_ohlcv st symbol timeframe seconds =
     (let got = get_recent_ticks st symbol 1000;
          st1 = fst got;
          ticks = snd got
      in if length ticks < 2 then (st1, Inr None)
         else if seconds \<le> 0 then (st1, Inl ValueError)
         else
           let ohlcv = dropna_close (resample_agg ticks seconds);
               inner = dd_get [] (resampled_data st1) symbol
           in (st1 \<lparr> resampled_data :=
                       dict_set (fst inner) symbol (dict_set (snd inner) timeframe ohlcv) \<rparr>,
               Inr (Some ohlcv)))"

text \<open>\<open>df.tail(n)\<close>: the last \<open>n\<close> rows; for a negative \<open>n\<close> all rows but the first \<open>-n\<close>.\<close>

definition df_tail :: "'a list \<Rightarrow> int \<Rightarrow> 'a list" where
  "df_tail df n = (if n = 0 then [] else slice_from df (- n))"

definition storage_get_ohlcv :: "storage \<Rightarrow> string \<Rightarrow> string \<Rightarrow> int \<Rightarrow> bar list" where
  "storage_get_ohlcv st symbol timeframe limit =
     (case map_of (resampled_data st) symbol of
        None \<Rightarrow> []
      | Some inner \<Rightarrow>
          (case map_of inner timeframe of None \<Rightarrow> [] | Some df \<Rightarrow> df_tail df limit))"

text \<open>Sequences of operations on one store, and the ticks of a symbol among them.\<close>

datatype storage_op =
    Add_tick tick
  | Get_recent_ticks string int
  | Get_all_symbols
  | Resample_to_ohlcv string string int

fun exec_op :: "storage \<Rightarrow> storage_op \<Rightarrow> storage" where
  "exec_op st (Add_tick t) = add_tick st t"
| "exec_op st (Get_recent_ticks symbol limit) = fst (get_recent_ticks st symbol limit)"
| "exec_op st Get_all_symbols = st"
| "exec_op st (Resample_to_ohlcv symbol timeframe seconds) =
     fst (resample_to_ohlcv st symbol timeframe seconds)"

definition run_ops :: "storage \<Rightarrow> storage_op list \<Rightarrow> storage" where
  "run_ops st ops = foldl exec_op st ops"

fun added_ticks :: "storage_op list \<Rightarrow> string \<Rightarrow> tick list" where
  "added_ticks [] symbol = []"
| "added_ticks (Add_tick t # ops) symbol =
     (if tick_symbol t = symbol then t # added_ticks ops symbol else added_ticks ops symbol)"
| "added_ticks (_ # ops) symbol = added_ticks ops symbol"

definition buffer_of :: "storage \<Rightarrow> string \<Rightarrow> tick list" where
  "buffer_of st symbol = (case map_of (tick_buffer st) symbol of None \<Rightarrow> [] | Some dq \<Rightarrow> dq)"

section \<open>main.py\<close>

datatype http_error = HTTPException nat string

definition TIMEFRAMES :: "(string \<times> int) list" where
  "TIMEFRAMES = [(''1s'', 1), (''1m'', 60), (''5m'', 300)]"

definition row_isna_any :: "bar \<Rightarrow> bool" where
  "row_isna_any b =
     (isnan (bar_open b) \<or> isnan (bar_high b) \<or> isnan (bar_low b) \<or> isnan (bar_close b)
      \<or> isnan (bar_volume b))"

text \<open>The endpoint \<open>get_ohlcv\<close>; the timestamp of a bar is kept as it is.\<close>

definition get_ohlcv :: "storage \<Rightarrow> string \<Rightarrow> string \<Rightarrow> int \<Rightarrow> http_error + bar list" where
  "get_ohlcv st symbol timeframe limit =
     (if timeframe \<notin> set (map fst TIMEFRAMES) then Inl (HTTPException 400 ''Invalid timeframe'')
      else
        let df = storage_get_ohlcv st symbol timeframe limit in
        if df = [] then Inr []
        else
          let data = filter (\<lambda>row. \<not> row_isna_any row) df
          in if length data < 2 then Inr [] else Inr data)"

section \<open>Sample inputs\<close>

text \<open>
  Concrete inputs on which the model is evaluated below. \<open>pearson\<close> is the correlation
  coefficient of two windows; \<open>sample_extern\<close> is one instance of the external
  estimators, whose regression and unit-root test raise (the sample series are too
  short for either to be called).
\<close>

definition pearson :: "fl list \<Rightarrow> fl list \<Rightarrow> fl" where
  "pearson xs ys =
     (let mx = fl_mean xs;
          my = fl_mean ys;
          sxy = fsum (map (\<lambda>p. fmul (fsub (fst p) mx) (fsub (snd p) my)) (zip xs ys));
          sxx = fsum (map (\<lambda>x. fmul (fsub x mx) (fsub x mx)) xs);
          syy = fsum (map (\<lambda>y. fmul (fsub y my) (fsub y my)) ys)
      in fdiv sxy (fsqrt (fmul sxx syy)))"

definition sample_extern :: extern where
  "sample_extern =
     \<lparr> linregress = (\<lambda>x y. Inl (LibraryError ''linregress'')),
       adfuller = (\<lambda>x. Inl ''adfuller''),
       window_corr = pearson \<rparr>"

definition minute_series :: "real list \<Rightarrow> series" where
  "minute_series vs = map (\<lambda>i. (int i * 60000, Fin (vs ! i))) [0..<length vs]"

definition rising_prices :: series where
  "rising_prices = minute_series [1, 2, 4, 3, 5]"

definition flat_prices :: series where
  "flat_prices = minute_series [2, 2, 2, 2, 2]"

definition unit_prices :: series where
  "unit_prices = minute_series [1, 1, 1, 1, 1]"

definition plateau_series :: series where
  "plateau_series = minute_series [0, 2, 2, 2, 2]"

definition mixed_prices :: series where
  "mixed_prices = minute_series [1, 2, 5, 4, 3]"

definition step_prices :: series where
  "step_prices = minute_series [1, 3, 3, 3, 3]"

definition sample_tick :: "string \<Rightarrow> timestamp \<Rightarrow> fl \<Rightarrow> tick" where
  "sample_tick name t p =
     \<lparr> tick_symbol = name, tick_timestamp = t, tick_price = p, tick_quantity = Fin 1 \<rparr>"

definition two_tick_ops :: "storage_op list" where
  "two_tick_ops =
     [Add_tick (sample_tick ''btcusdt'' 0 (Fin 1)), Add_tick (sample_tick ''btcusdt'' 61000 (Fin 2))]"

definition inf_tick_ops :: "storage_op list" where
  "inf_tick_ops =
     [Add_tick (sample_tick ''btcusdt'' 0 PInf), Add_tick (sample_tick ''btcusdt'' 61000 PInf),
      Resample_to_ohlcv ''btcusdt'' ''1m'' 60]"

section \<open>Properties of the analytics pipeline\<close>

subsection \<open>Alignment\<close>

lemma data_frame_keys:
  "fst ` set (data_frame xs ys) = fst ` set xs \<union> fst ` set ys"
  by (induction xs ys rule: data_frame.induct) (force+)

lemma data_frame_sorted:
  "sorted_wrt (<) (map fst xs) \<Longrightarrow> sorted_wrt (<) (map fst ys)
   \<Longrightarrow> sorted_wrt (<) (map fst (data_frame xs ys))"
proof (induction xs ys rule: data_frame.induct)
  case (1 ys)
  then show ?case by (simp add: comp_def)
next
  case (2 x xs)
  then show ?case by (simp add: comp_def)
next
  case (3 x xs y ys)
  from "3.prems" have sx: "sorted_wrt (<) (map fst xs)" and sy: "sorted_wrt (<) (map fst ys)"
    and bx: "\<forall>k\<in>fst ` set xs. fst x < k" and by': "\<forall>k\<in>fst ` set ys. fst y < k"
    by auto
  consider "fst x < fst y" | "fst y < fst x" | "fst x = fst y" by linarith
  then show ?case
  proof cases
    case 1
    then have "sorted_wrt (<) (map fst (data_frame xs (y # ys)))"
      using "3.IH"(1) sx "3.prems"(2) by simp
    moreover have "\<forall>k\<in>fst ` set (data_frame xs (y # ys)). fst x < k"
      unfolding data_frame_keys using bx by' 1 by auto
    ultimately show ?thesis using 1 by simp
  next
    case 2
    then have "sorted_wrt (<) (map fst (data_frame (x # xs) ys))"
      using "3.IH"(2) sy "3.prems"(1) by simp
    moreover have "\<forall>k\<in>fst ` set (data_frame (x # xs) ys). fst y < k"
      unfolding data_frame_keys using bx by' 2 by auto
    ultimately show ?thesis using 2 by simp
  next
    case 3
    then have "sorted_wrt (<) (map fst (data_frame xs ys))"
      using "3.IH"(3) sx sy by simp
    moreover have "\<forall>k\<in>fst ` set (data_frame xs ys). fst x < k"
      unfolding data_frame_keys using bx by' 3 by auto
    ultimately show ?thesis using 3 by simp
  qed
qed

lemma data_frame_rows:
  assumes "sorted_wrt (<) (map fst xs)" "sorted_wrt (<) (map fst ys)" "\<not> isnan a" "\<not> isnan b"
  shows "(t, a, b) \<in> set (data_frame xs ys) \<longleftrightarrow> (t, a) \<in> set xs \<and> (t, b) \<in> set ys"
  using assms
proof (induction xs ys rule: data_frame.induct)
  case (1 ys)
  then show ?case by auto
next
  case (2 x xs)
  then show ?case by auto
next
  case (3 x xs y ys)
  from "3.prems" have sx: "sorted_wrt (<) (map fst xs)" and sy: "sorted_wrt (<) (map fst ys)"
    and bx: "\<forall>p\<in>set xs. fst x < fst p" and by': "\<forall>p\<in>set ys. fst y < fst p"
    by auto
  have tx: "(t, a) \<in> set xs \<Longrightarrow> fst x < t" for a using bx by fastforce
  have ty: "(t, b) \<in> set ys \<Longrightarrow> fst y < t" for b using by' by fastforce
  consider "fst x < fst y" | "fst y < fst x" | "fst x = fst y" by linarith
  then show ?case
  proof cases
    case 1
    have "(t, a, b) \<in> set (data_frame xs (y # ys)) \<longleftrightarrow> (t, a) \<in> set xs \<and> (t, b) \<in> set (y # ys)"
      using "3.IH"(1)[OF 1 sx "3.prems"(2) "3.prems"(3) "3.prems"(4)] .
    moreover have "(t, a) = x \<Longrightarrow> (t, b) \<notin> set (y # ys)"
      using 1 ty[of b] by (cases y) auto
    ultimately show ?thesis using 1 "3.prems"(4) by auto
  next
    case 2
    then have n1: "\<not> fst x < fst y" by simp
    have "(t, a, b) \<in> set (data_frame (x # xs) ys) \<longleftrightarrow> (t, a) \<in> set (x # xs) \<and> (t, b) \<in> set ys"
      using "3.IH"(2)[OF n1 2 "3.prems"(1) sy "3.prems"(3) "3.prems"(4)] .
    moreover have "(t, b) = y \<Longrightarrow> (t, a) \<notin> set (x # xs)"
      using 2 tx[of a] by (cases x) auto
    ultimately show ?thesis using 2 "3.prems"(3) by auto
  next
    case 3
    then have n1: "\<not> fst x < fst y" and n2: "\<not> fst y < fst x" by simp_all
    have ih: "(t, a, b) \<in> set (data_frame xs ys) \<longleftrightarrow> (t, a) \<in> set xs \<and> (t, b) \<in> set ys"
      using "3.IH"(3)[OF n1 n2 sx sy "3.prems"(3) "3.prems"(4)] .
    have e1: "(t, a) = x \<Longrightarrow> (t, b) \<notin> set ys" using 3 ty[of b] by (cases x) auto
    have e2: "(t, b) = y \<Longrightarrow> (t, a) \<notin> set xs" using 3 tx[of a] by (cases y) auto
    show ?thesis using 3 ih e1 e2 by (cases x; cases y) auto
  qed
qed

lemma aligned_frame_keys:
  assumes "series_ok prices1" "series_ok prices2"
  shows "fst ` set (aligned_frame prices1 prices2) =
         {t. \<exists>v1 v2. (t, v1) \<in> set prices1 \<and> (t, v2) \<in> set prices2 \<and> \<not> isnan v1 \<and> \<not> isnan v2}"
proof -
  have "\<And>t a b. (t, a, b) \<in> set (aligned_frame prices1 prices2) \<longleftrightarrow>
          (t, a) \<in> set prices1 \<and> (t, b) \<in> set prices2 \<and> \<not> isnan a \<and> \<not> isnan b"
    using assms data_frame_rows[of prices1 prices2]
    by (auto simp: aligned_frame_def dropna_rows_def series_ok_def)
  then show ?thesis by (force simp: image_iff)
qed

lemma aligned_frame_sorted:
  assumes "series_ok prices1" "series_ok prices2"
  shows "sorted_wrt (<) (map fst (aligned_frame prices1 prices2))"
proof -
  have "sorted_wrt (<) (map fst (data_frame prices1 prices2))"
    using assms by (simp add: data_frame_sorted series_ok_def)
  then show ?thesis
    unfolding aligned_frame_def dropna_rows_def
    by (simp add: sorted_wrt_map sorted_wrt_filter)
qed

lemma aligned_count_length:
  assumes "series_ok prices1" "series_ok prices2"
  shows "aligned_count prices1 prices2 = length (aligned_frame prices1 prices2)"
proof -
  have "distinct (map fst (aligned_frame prices1 prices2))"
    using aligned_frame_sorted[OF assms] by (simp add: strict_sorted_iff)
  then have "card (fst ` set (aligned_frame prices1 prices2)) = length (aligned_frame prices1 prices2)"
    using distinct_card[of "map fst (aligned_frame prices1 prices2)"] by simp
  then show ?thesis
    unfolding aligned_count_def aligned_frame_keys[OF assms, symmetric] .
qed

subsection \<open>The plot-safety gate\<close>

lemma plot_safe_values:
  assumes "is_plot_safe s m"
  shows "m \<le> int (length s)" "\<forall>p\<in>set s. \<not> isnan (snd p) \<and> \<not> isinf (snd p)"
        "2 \<le> card (snd ` set s)"
proof -
  from assms show "m \<le> int (length s)"
    by (simp add: is_plot_safe_def split: if_splits)
  from assms have nn: "\<not> list_ex isnan (series_values s)" and ni: "\<not> list_ex isinf (series_values s)"
    and nu: "\<not> nunique s \<le> 1"
    by (simp_all add: is_plot_safe_def split: if_splits)
  from nn ni show "\<forall>p\<in>set s. \<not> isnan (snd p) \<and> \<not> isinf (snd p)"
    by (auto simp: list_ex_iff series_values_def)
  from nn have "filter (\<lambda>v. \<not> isnan v) (series_values s) = series_values s"
    by (auto simp: list_ex_iff filter_id_conv)
  with nu have "2 \<le> length (remdups (series_values s))"
    by (simp add: nunique_def)
  then show "2 \<le> card (snd ` set s)"
    by (simp add: length_remdups_card_conv series_values_def)
qed

lemma series_to_list_safe_cases:
  "series_to_list_safe s = [] \<or> (series_to_list_safe s = s \<and> is_plot_safe s 3)"
proof (cases "is_plot_safe s 3")
  case False
  then show ?thesis by (simp add: series_to_list_safe_def)
next
  case True
  from plot_safe_values(2)[OF True]
  have "filter (\<lambda>p. \<not> (isnan (snd p) \<or> isinf (snd p))) s = s"
    by (auto simp: filter_id_conv)
  with True show ?thesis
    by (simp add: series_to_list_safe_def Let_def)
qed

lemma series_to_list_safe_gate:
  "series_to_list_safe s = [] \<or>
   (2 \<le> length (series_to_list_safe s)
    \<and> (\<forall>p\<in>set (series_to_list_safe s). \<not> isnan (snd p) \<and> \<not> isinf (snd p))
    \<and> 2 \<le> card (snd ` set (series_to_list_safe s)))"
proof (cases "series_to_list_safe s = []")
  case True
  then show ?thesis by simp
next
  case False
  with series_to_list_safe_cases[of s]
  have eq: "series_to_list_safe s = s" and safe: "is_plot_safe s 3" by simp_all
  from plot_safe_values(1)[OF safe] have "2 \<le> length s" by simp
  moreover note plot_safe_values(2)[OF safe] plot_safe_values(3)[OF safe]
  ultimately show ?thesis unfolding eq by blast
qed

lemma analyze_pair_AnalysisD:
  assumes "analyze_pair L sym1 sym2 prices1 prices2 window = Inr (Analysis r)"
  shows "\<exists>h rsq z c.
           max 5 window \<le> int (length (aligned_frame prices1 prices2))
         \<and> hedge_stage L (aligned_frame prices1 prices2) = Inr (h, rsq)
         \<and> zscore_stage (spread_stage (aligned_frame prices1 prices2) h) window = Inr z
         \<and> correlation_stage L (aligned_frame prices1 prices2) window = Inr c
         \<and> r = build_result L sym1 sym2 (aligned_frame prices1 prices2) h rsq
                 (spread_stage (aligned_frame prices1 prices2) h) z c"
  using assms
  by (auto simp: analyze_pair_def Let_def split: if_splits sum.splits)

lemma build_result_fields:
  "series_spread (build_result L a b df h q sp z c) = series_to_list_safe sp"
  "series_zscore (build_result L a b df h q sp z c) = series_to_list_safe z"
  "series_correlation (build_result L a b df h q sp z c) = series_to_list_safe c"
  "current_spread (build_result L a b df h q sp z c) = sanitize_value (last_value sp)"
  "current_zscore (build_result L a b df h q sp z c) = sanitize_value (last_value z)"
  "current_correlation (build_result L a b df h q sp z c) = sanitize_value (last_value c)"
  "hedge_ratio (build_result L a b df h q sp z c) = sanitize_value (Some h)"
  "r_squared (build_result L a b df h q sp z c) = sanitize_value (Some q)"
  "adf_test (build_result L a b df h q sp z c) = sanitize_adf (augmented_dickey_fuller_test L sp)"
  by (simp_all add: build_result_def Let_def)

text \<open>
  Claim C1. Each of the three series of a result of \<open>analyze_pair\<close> (spread, zscore,
  correlation) is empty, or has at least two points, holds no NaN and no infinity, and
  has at least two distinct values.
\<close>

theorem analyze_pair_series_gated:
  assumes "analyze_pair L sym1 sym2 prices1 prices2 window = Inr (Analysis r)"
      and "g \<in> {series_spread r, series_zscore r, series_correlation r}"
  shows "g = [] \<or>
         (2 \<le> length g \<and> (\<forall>p\<in>set g. \<not> isnan (snd p) \<and> \<not> isinf (snd p))
          \<and> 2 \<le> card (snd ` set g))"
proof -
  from analyze_pair_AnalysisD[OF assms(1)] obtain h rsq z c where
    r: "r = build_result L sym1 sym2 (aligned_frame prices1 prices2) h rsq
                 (spread_stage (aligned_frame prices1 prices2) h) z c"
    by blast
  from assms(2) obtain s where "g = series_to_list_safe s"
    unfolding r build_result_fields by auto
  then show ?thesis using series_to_list_safe_gate[of s] by simp
qed

subsection \<open>Stages and results of \<open>analyze_pair\<close>\<close>

lemma rolling_Inr:
  "0 \<le> window \<Longrightarrow> \<exists>r. rolling window agg xs = Inr r \<and> length r = length xs"
  by (simp add: rolling_def Let_def)

lemma rolling_neg: "window < 0 \<Longrightarrow> rolling window agg xs = Inl ValueError"
  by (simp add: rolling_def)

lemma rolling2_Inr:
  "0 \<le> window \<Longrightarrow> \<exists>r. rolling2 window agg xs ys = Inr r \<and> length r = length xs"
  by (simp add: rolling2_def Let_def)

lemma rolling2_neg: "window < 0 \<Longrightarrow> rolling2 window agg xs ys = Inl ValueError"
  by (simp add: rolling2_def)

lemma zscore_stage_returns: "0 \<le> window \<Longrightarrow> \<exists>z. zscore_stage s window = Inr z"
  using rolling_Inr[of window fl_mean "series_values s"] rolling_Inr[of window fl_std "series_values s"]
  by (auto simp: zscore_stage_def Let_def)

lemma zscore_stage_neg: "window < 0 \<Longrightarrow> zscore_stage s window = Inl ValueError"
  by (simp add: zscore_stage_def rolling_neg)

lemma correlation_stage_returns: "0 \<le> window \<Longrightarrow> \<exists>c. correlation_stage L df window = Inr c"
  using rolling2_Inr[of window "window_corr L" "series_values (column1 df)" "series_values (column2 df)"]
  by (auto simp: correlation_stage_def)

lemma hedge_stage_short: "length df < 10 \<Longrightarrow> hedge_stage L df = Inr (Fin 1, Fin 0)"
  by (simp add: hedge_stage_def column1_def)

lemma analyze_pair_insufficient:
  "int (length (aligned_frame prices1 prices2)) < max 5 window \<Longrightarrow>
   analyze_pair L sym1 sym2 prices1 prices2 window =
     Inr (Insufficient_data
            (insufficient_message (length (aligned_frame prices1 prices2)) (max 5 window)))"
  by (simp add: analyze_pair_def Let_def)

lemma analyze_pair_returns:
  assumes "0 \<le> window"
      and "max 5 window \<le> int (length (aligned_frame prices1 prices2))"
      and "hedge_stage L (aligned_frame prices1 prices2) = Inr (h, q)"
  shows "\<exists>z c. zscore_stage (spread_stage (aligned_frame prices1 prices2) h) window = Inr z
             \<and> correlation_stage L (aligned_frame prices1 prices2) window = Inr c
             \<and> analyze_pair L sym1 sym2 prices1 prices2 window =
                 Inr (Analysis (build_result L sym1 sym2 (aligned_frame prices1 prices2) h q
                        (spread_stage (aligned_frame prices1 prices2) h) z c))"
proof -
  from zscore_stage_returns[OF assms(1)] obtain z where
    z: "zscore_stage (spread_stage (aligned_frame prices1 prices2) h) window = Inr z" by blast
  from correlation_stage_returns[OF assms(1)] obtain c where
    c: "correlation_stage L (aligned_frame prices1 prices2) window = Inr c" by blast
  from assms(2) have ge: "\<not> int (length (aligned_frame prices1 prices2)) < max 5 window" by linarith
  have "analyze_pair L sym1 sym2 prices1 prices2 window =
          Inr (Analysis (build_result L sym1 sym2 (aligned_frame prices1 prices2) h q
                 (spread_stage (aligned_frame prices1 prices2) h) z c))"
    unfolding analyze_pair_def Let_def using ge assms(3) z c by simp
  with z c show ?thesis by blast
qed

lemma analyze_pair_negative_window:
  assumes "window < 0"
      and "5 \<le> length (aligned_frame prices1 prices2)"
      and "hedge_stage L (aligned_frame prices1 prices2) = Inr hq"
  shows "analyze_pair L sym1 sym2 prices1 prices2 window = Inl ValueError"
proof -
  from assms(1,2) have ge: "\<not> int (length (aligned_frame prices1 prices2)) < max 5 window" by linarith
  show ?thesis
    unfolding analyze_pair_def Let_def using ge assms(3) zscore_stage_neg[OF assms(1)] by simp
qed

lemma sanitize_value_Fin: "sanitize_value (Some (Fin a)) = Some (Fin a)"
  by (simp add: sanitize_value_def)

lemma adf_short:
  "length s < 12 \<Longrightarrow>
   sanitize_adf (augmented_dickey_fuller_test L s) = Adf_error ''Insufficient data for ADF test''"
  by (simp add: augmented_dickey_fuller_test_def sanitize_adf_def)

lemma sample_series_ok:
  "series_ok rising_prices" "series_ok flat_prices" "series_ok unit_prices"
  by code_simp+

lemma sample_frames:
  "aligned_frame rising_prices unit_prices =
     [(0, Fin 1, Fin 1), (60000, Fin 2, Fin 1), (120000, Fin 4, Fin 1), (180000, Fin 3, Fin 1),
      (240000, Fin 5, Fin 1)]"
  "aligned_frame flat_prices unit_prices =
     [(0, Fin 2, Fin 1), (60000, Fin 2, Fin 1), (120000, Fin 2, Fin 1), (180000, Fin 2, Fin 1),
      (240000, Fin 2, Fin 1)]"
  by code_simp+

lemma sample_spreads:
  "spread_stage (aligned_frame rising_prices unit_prices) (Fin 1) =
     [(0, Fin 0), (60000, Fin 1), (120000, Fin 3), (180000, Fin 2), (240000, Fin 4)]"
  "spread_stage (aligned_frame flat_prices unit_prices) (Fin 1) =
     [(0, Fin 1), (60000, Fin 1), (120000, Fin 1), (180000, Fin 1), (240000, Fin 1)]"
  by code_simp+

lemma sample_gated:
  "series_to_list_safe [(0, Fin 0), (60000, Fin 1), (120000, Fin 3), (180000, Fin 2), (240000, Fin 4)]
     = [(0, Fin 0), (60000, Fin 1), (120000, Fin 3), (180000, Fin 2), (240000, Fin 4)]"
  "series_to_list_safe [(0, Fin 1), (60000, Fin 1), (120000, Fin 1), (180000, Fin 1), (240000, Fin 1)]
     = []"
  by code_simp+

text \<open>
  Claim C2. When fewer than \<open>max(5, window)\<close> timestamps carry a value in both series,
  \<open>analyze_pair\<close> returns the insufficient-data dictionary: its only key is \<open>error\<close>,
  and its message states the aligned count and the required minimum.
\<close>

theorem insufficient_aligned_data:
  assumes "series_ok prices1" and "series_ok prices2"
      and "int (aligned_count prices1 prices2) < max 5 window"
  shows "analyze_pair L sym1 sym2 prices1 prices2 window =
           Inr (Insufficient_data
                  (''Insufficient aligned data: '' @ str_nat (aligned_count prices1 prices2)
                     @ '' points, need at least '' @ str_int (max 5 window)))
         \<and> (\<forall>r. analyze_pair L sym1 sym2 prices1 prices2 window = Inr r \<longrightarrow>
                  result_keys r = [''error''])"
proof -
  have n: "aligned_count prices1 prices2 = length (aligned_frame prices1 prices2)"
    by (rule aligned_count_length[OF assms(1,2)])
  from assms(3) have "int (length (aligned_frame prices1 prices2)) < max 5 window"
    by (simp add: n)
  from analyze_pair_insufficient[OF this, of L sym1 sym2]
  show ?thesis by (simp add: n insufficient_message_def result_keys_def)
qed

theorem insufficient_aligned_data_witness:
  "series_ok rising_prices \<and> series_ok unit_prices
   \<and> aligned_count rising_prices unit_prices = 5
   \<and> analyze_pair sample_extern ''btcusdt'' ''ethusdt'' rising_prices unit_prices 20 =
       Inr (Insufficient_data ''Insufficient aligned data: 5 points, need at least 20'')"
proof -
  have n: "aligned_count rising_prices unit_prices = 5"
    by (simp add: aligned_count_length sample_series_ok sample_frames)
  have s: "str_nat 5 = ''5''" "str_int 20 = ''20''" by code_simp+
  from insufficient_aligned_data[of rising_prices unit_prices 20 sample_extern "''btcusdt''" "''ethusdt''"]
  show ?thesis by (simp add: sample_series_ok n s)
qed

lemma build_result_stats:
  "stats (build_result L a b df h q sp z c) =
     dict_literal [(a, sanitize_stats (compute_basic_stats (column1 df))),
                   (b, sanitize_stats (compute_basic_stats (column2 df))),
                   (''spread'', sanitize_stats (compute_basic_stats sp))]"
  "symbol1 (build_result L a b df h q sp z c) = a"
  "symbol2 (build_result L a b df h q sp z c) = b"
  by (simp_all add: build_result_def Let_def)

lemma sample_lengths:
  "length (aligned_frame rising_prices unit_prices) = 5"
  "length (aligned_frame flat_prices unit_prices) = 5"
  by (simp_all add: sample_frames)

theorem analyze_pair_series_gated_witness:
  "\<exists>r. analyze_pair sample_extern ''btcusdt'' ''ethusdt'' rising_prices unit_prices 5 = Inr (Analysis r)
      \<and> series_spread r = [(0, Fin 0), (60000, Fin 1), (120000, Fin 3), (180000, Fin 2), (240000, Fin 4)]
      \<and> 2 \<le> length (series_spread r)
      \<and> 2 \<le> card (snd ` set (series_spread r))"
proof -
  have h: "hedge_stage sample_extern (aligned_frame rising_prices unit_prices) = Inr (Fin 1, Fin 0)"
    by (simp add: hedge_stage_short sample_lengths)
  from analyze_pair_returns[OF _ _ h, of 5 "''btcusdt''" "''ethusdt''"]
  obtain r where
    r: "analyze_pair sample_extern ''btcusdt'' ''ethusdt'' rising_prices unit_prices 5 = Inr (Analysis r)"
    and sp: "series_spread r = series_to_list_safe (spread_stage (aligned_frame rising_prices unit_prices) (Fin 1))"
    by (auto simp: sample_lengths build_result_fields)
  have ne: "series_spread r = [(0, Fin 0), (60000, Fin 1), (120000, Fin 3), (180000, Fin 2), (240000, Fin 4)]"
    unfolding sp sample_spreads sample_gated ..
  from analyze_pair_series_gated[OF r, of "series_spread r"] ne
  have "2 \<le> length (series_spread r) \<and> 2 \<le> card (snd ` set (series_spread r))"
    by auto
  with r ne show ?thesis by blast
qed

text \<open>
  Claim C3, amended. For a window that is not negative and an aligned length of at least
  \<open>max(5, window)\<close> but below 10, the regression is skipped and \<open>analyze_pair\<close>
  returns a result whose \<open>hedge_ratio\<close> is 1.0 and whose \<open>r_squared\<close> is 0.0. (For a
  negative window the rolling stage raises \<open>ValueError\<close>, see the counterexample.)
\<close>

theorem ols_degrades_below_ten:
  assumes "0 \<le> window"
      and "max 5 window \<le> int (length (aligned_frame prices1 prices2))"
      and "length (aligned_frame prices1 prices2) < 10"
  shows "hedge_stage L (aligned_frame prices1 prices2) = Inr (Fin 1, Fin 0)
         \<and> (\<exists>r. analyze_pair L sym1 sym2 prices1 prices2 window = Inr (Analysis r)
                \<and> hedge_ratio r = Some (Fin 1) \<and> r_squared r = Some (Fin 0))"
proof -
  have h: "hedge_stage L (aligned_frame prices1 prices2) = Inr (Fin 1, Fin 0)"
    by (rule hedge_stage_short[OF assms(3)])
  from analyze_pair_returns[OF assms(1,2) h, of sym1 sym2]
  show ?thesis using h by (auto simp: build_result_fields sanitize_value_Fin)
qed

theorem ols_degrades_below_ten_witness:
  "(0::int) \<le> 5 \<and> max 5 5 \<le> int (length (aligned_frame rising_prices unit_prices))
   \<and> length (aligned_frame rising_prices unit_prices) < 10
   \<and> (\<exists>r. analyze_pair sample_extern ''btcusdt'' ''ethusdt'' rising_prices unit_prices 5 = Inr (Analysis r)
          \<and> hedge_ratio r = Some (Fin 1) \<and> r_squared r = Some (Fin 0))"
  using ols_degrades_below_ten[of 5 rising_prices unit_prices sample_extern "''btcusdt''" "''ethusdt''"]
  by (simp add: sample_lengths)

theorem ols_negative_window_counterexample:
  "max 5 (- 1) \<le> int (length (aligned_frame rising_prices unit_prices))
   \<and> length (aligned_frame rising_prices unit_prices) < 10
   \<and> analyze_pair sample_extern ''btcusdt'' ''ethusdt'' rising_prices unit_prices (- 1) = Inl ValueError"
proof -
  have h: "hedge_stage sample_extern (aligned_frame rising_prices unit_prices) = Inr (Fin 1, Fin 0)"
    by (simp add: hedge_stage_short sample_lengths)
  have "analyze_pair sample_extern ''btcusdt'' ''ethusdt'' rising_prices unit_prices (- 1) = Inl ValueError"
    by (rule analyze_pair_negative_window[OF _ _ h]) (simp_all add: sample_lengths)
  then show ?thesis by (simp add: sample_lengths)
qed

text \<open>
  Claim C7, amended. For a window that is not negative, an aligned length of at least
  \<open>max(5, window)\<close>, a regression stage that returns, and a spread of fewer than 12 points,
  \<open>analyze_pair\<close> returns the full result: its \<open>adf_test\<close> block is the error marker,
  and \<open>hedge_ratio\<close>, \<open>r_squared\<close>, \<open>stats\<close> and the three series are what the other
  stages computed. (For a negative window the rolling stage raises \<open>ValueError\<close>, see
  the counterexample.)
\<close>

theorem adf_marker_is_local:
  assumes "0 \<le> window"
      and "max 5 window \<le> int (length (aligned_frame prices1 prices2))"
      and "hedge_stage L (aligned_frame prices1 prices2) = Inr (h, q)"
      and "length (spread_stage (aligned_frame prices1 prices2) h) < 12"
  shows "\<exists>r z c. analyze_pair L sym1 sym2 prices1 prices2 window = Inr (Analysis r)
           \<and> adf_test r = Adf_error ''Insufficient data for ADF test''
           \<and> zscore_stage (spread_stage (aligned_frame prices1 prices2) h) window = Inr z
           \<and> correlation_stage L (aligned_frame prices1 prices2) window = Inr c
           \<and> hedge_ratio r = sanitize_value (Some h)
           \<and> r_squared r = sanitize_value (Some q)
           \<and> stats r =
               dict_literal
                 [(sym1, sanitize_stats (compute_basic_stats (column1 (aligned_frame prices1 prices2)))),
                  (sym2, sanitize_stats (compute_basic_stats (column2 (aligned_frame prices1 prices2)))),
                  (''spread'', sanitize_stats (compute_basic_stats
                                 (spread_stage (aligned_frame prices1 prices2) h)))]
           \<and> series_spread r = series_to_list_safe (spread_stage (aligned_frame prices1 prices2) h)
           \<and> series_zscore r = series_to_list_safe z
           \<and> series_correlation r = series_to_list_safe c"
proof -
  from analyze_pair_returns[OF assms(1,2,3), of sym1 sym2]
  obtain z c where
    z: "zscore_stage (spread_stage (aligned_frame prices1 prices2) h) window = Inr z" and
    c: "correlation_stage L (aligned_frame prices1 prices2) window = Inr c" and
    r: "analyze_pair L sym1 sym2 prices1 prices2 window =
          Inr (Analysis (build_result L sym1 sym2 (aligned_frame prices1 prices2) h q
                 (spread_stage (aligned_frame prices1 prices2) h) z c))"
    by blast
  show ?thesis
    apply (rule exI[of _ "build_result L sym1 sym2 (aligned_frame prices1 prices2) h q
                 (spread_stage (aligned_frame prices1 prices2) h) z c"])
    apply (rule exI[of _ z], rule exI[of _ c])
    using z c r adf_short[OF assms(4), of L]
    by (simp add: build_result_fields build_result_stats)
qed

theorem adf_marker_is_local_witness:
  "\<exists>r. analyze_pair sample_extern ''btcusdt'' ''ethusdt'' rising_prices unit_prices 3 = Inr (Analysis r)
     \<and> adf_test r = Adf_error ''Insufficient data for ADF test''
     \<and> hedge_ratio r = Some (Fin 1)
     \<and> series_spread r = [(0, Fin 0), (60000, Fin 1), (120000, Fin 3), (180000, Fin 2), (240000, Fin 4)]"
proof -
  have h: "hedge_stage sample_extern (aligned_frame rising_prices unit_prices) = Inr (Fin 1, Fin 0)"
    by (simp add: hedge_stage_short sample_lengths)
  have l: "length (spread_stage (aligned_frame rising_prices unit_prices) (Fin 1)) < 12"
    by (simp add: sample_spreads)
  from adf_marker_is_local[OF _ _ h l, of 3 "''btcusdt''" "''ethusdt''"]
  show ?thesis
    by (auto simp: sample_lengths sample_spreads sample_gated sanitize_value_Fin)
qed

theorem adf_negative_window_counterexample:
  "max 5 (- 2) \<le> int (length (aligned_frame flat_prices unit_prices))
   \<and> hedge_stage sample_extern (aligned_frame flat_prices unit_prices) = Inr (Fin 1, Fin 0)
   \<and> length (spread_stage (aligned_frame flat_prices unit_prices) (Fin 1)) < 12
   \<and> analyze_pair sample_extern ''btcusdt'' ''ethusdt'' flat_prices unit_prices (- 2) = Inl ValueError"
proof -
  have h: "hedge_stage sample_extern (aligned_frame flat_prices unit_prices) = Inr (Fin 1, Fin 0)"
    by (simp add: hedge_stage_short sample_lengths)
  have "analyze_pair sample_extern ''btcusdt'' ''ethusdt'' flat_prices unit_prices (- 2) = Inl ValueError"
    by (rule analyze_pair_negative_window[OF _ _ h]) (simp_all add: sample_lengths)
  with h show ?thesis by (simp add: sample_lengths sample_spreads)
qed

subsection \<open>The rolling z-score\<close>
















lemma plateau_eq: "plateau_series = [(0, Fin 0), (60000, Fin 2), (120000, Fin 2), (180000, Fin 2), (240000, Fin 2)]"
  by code_simp

lemma upt5: "[0..<5] = [0,1,2,3,4]" by code_simp

lemma plateau_values: "series_values plateau_series = [Fin 0, Fin 2, Fin 2, Fin 2, Fin 2]"
  by code_simp

lemma plateau_mean: "rolling 4 fl_mean [Fin 0, Fin 2, Fin 2, Fin 2, Fin 2] = Inr [NaN, NaN, NaN, Fin (3/2), Fin 2]"
  by (simp add: rolling_def Let_def upt5 window_at_def fl_mean_def fsum_def)

lemma plateau_std: "rolling 4 fl_std [Fin 0, Fin 2, Fin 2, Fin 2, Fin 2] = Inr [NaN, NaN, NaN, Fin 1, Fin 0]"
  by (simp add: rolling_def Let_def upt5 window_at_def fl_std_def fl_mean_def fsum_def fsub_def)

lemma plateau_zscore: "zscore_stage plateau_series 4 = Inr [(180000, Fin (1/2))]"
  by (simp add: zscore_stage_def plateau_values plateau_mean plateau_std)
     (simp add: plateau_eq replace_zero_def zscore_points_def upt5 replace_inf_def dropna_def fsub_def)


subsection \<open>The current values\<close>

lemma more_sample_frames:
  "length (aligned_frame mixed_prices unit_prices) = 5"
  "length (aligned_frame step_prices unit_prices) = 5"
  by code_simp+

lemma more_sample_spreads:
  "spread_stage (aligned_frame mixed_prices unit_prices) (Fin 1) =
     [(0, Fin 0), (60000, Fin 1), (120000, Fin 4), (180000, Fin 3), (240000, Fin 2)]"
  "spread_stage (aligned_frame step_prices unit_prices) (Fin 1) = plateau_series"
  by code_simp+

lemma single_point_gated: "series_to_list_safe [(180000, Fin (1 / 2))] = []"
  by (simp add: series_to_list_safe_def is_plot_safe_def)

text \<open>
  Claim C9. \<open>current_spread\<close>, \<open>current_zscore\<close> and \<open>current_correlation\<close> are
  the last element of the spread, z-score and correlation series as they are before the
  plot-safety check (\<open>None\<close> when that series is empty or its last value is NaN or
  infinite); and there are inputs for which such a scalar is a finite number while the
  checked series of the same result is empty.
\<close>

theorem current_values_are_last_ungated:
  "(analyze_pair L sym1 sym2 prices1 prices2 window = Inr (Analysis r) \<longrightarrow>
      (\<exists>h q spread z c.
          hedge_stage L (aligned_frame prices1 prices2) = Inr (h, q)
        \<and> spread = spread_stage (aligned_frame prices1 prices2) h
        \<and> zscore_stage spread window = Inr z
        \<and> correlation_stage L (aligned_frame prices1 prices2) window = Inr c
        \<and> current_spread r =
              (if spread = [] \<or> isnan (snd (last spread)) \<or> isinf (snd (last spread)) then None
               else Some (snd (last spread)))
        \<and> current_zscore r =
              (if z = [] \<or> isnan (snd (last z)) \<or> isinf (snd (last z)) then None
               else Some (snd (last z)))
        \<and> current_correlation r =
              (if c = [] \<or> isnan (snd (last c)) \<or> isinf (snd (last c)) then None
               else Some (snd (last c)))
        \<and> series_spread r = series_to_list_safe spread
        \<and> series_zscore r = series_to_list_safe z
        \<and> series_correlation r = series_to_list_safe c))
   \<and> (\<exists>L' a b p1 p2 w r' x.
          analyze_pair L' a b p1 p2 w = Inr (Analysis r')
        \<and> current_spread r' = Some (Fin x) \<and> series_spread r' = [])
   \<and> (\<exists>L' a b p1 p2 w r' x.
          analyze_pair L' a b p1 p2 w = Inr (Analysis r')
        \<and> current_zscore r' = Some (Fin x) \<and> series_zscore r' = [])"
proof (intro conjI impI)
  assume "analyze_pair L sym1 sym2 prices1 prices2 window = Inr (Analysis r)"
  from analyze_pair_AnalysisD[OF this] obtain h q z c where
    h: "hedge_stage L (aligned_frame prices1 prices2) = Inr (h, q)" and
    z: "zscore_stage (spread_stage (aligned_frame prices1 prices2) h) window = Inr z" and
    c: "correlation_stage L (aligned_frame prices1 prices2) window = Inr c" and
    r: "r = build_result L sym1 sym2 (aligned_frame prices1 prices2) h q
              (spread_stage (aligned_frame prices1 prices2) h) z c"
    by blast
  have scalar: "sanitize_value (last_value s) =
                  (if s = [] \<or> isnan (snd (last s)) \<or> isinf (snd (last s)) then None
                   else Some (snd (last s)))" for s :: series
    by (simp add: sanitize_value_def last_value_def)
  show "\<exists>h q spread z c.
          hedge_stage L (aligned_frame prices1 prices2) = Inr (h, q)
        \<and> spread = spread_stage (aligned_frame prices1 prices2) h
        \<and> zscore_stage spread window = Inr z
        \<and> correlation_stage L (aligned_frame prices1 prices2) window = Inr c
        \<and> current_spread r =
              (if spread = [] \<or> isnan (snd (last spread)) \<or> isinf (snd (last spread)) then None
               else Some (snd (last spread)))
        \<and> current_zscore r =
              (if z = [] \<or> isnan (snd (last z)) \<or> isinf (snd (last z)) then None
               else Some (snd (last z)))
        \<and> current_correlation r =
              (if c = [] \<or> isnan (snd (last c)) \<or> isinf (snd (last c)) then None
               else Some (snd (last c)))
        \<and> series_spread r = series_to_list_safe spread
        \<and> series_zscore r = series_to_list_safe z
        \<and> series_correlation r = series_to_list_safe c"
    apply (rule exI[of _ h], rule exI[of _ q])
    apply (rule exI[of _ "spread_stage (aligned_frame prices1 prices2) h"])
    apply (rule exI[of _ z], rule exI[of _ c])
    using h z c by (simp only: r build_result_fields scalar simp_thms)
next
  have h: "hedge_stage sample_extern (aligned_frame flat_prices unit_prices) = Inr (Fin 1, Fin 0)"
    by (simp add: hedge_stage_short sample_lengths)
  from analyze_pair_returns[OF _ _ h, of 5 "''btcusdt''" "''ethusdt''"]
  have "\<exists>r. analyze_pair sample_extern ''btcusdt'' ''ethusdt'' flat_prices unit_prices 5 = Inr (Analysis r)
          \<and> current_spread r = Some (Fin 1) \<and> series_spread r = []"
    by (auto simp: sample_lengths build_result_fields sample_spreads sample_gated
                   last_value_def sanitize_value_def)
  then show "\<exists>L' a b p1 p2 w r' x.
          analyze_pair L' a b p1 p2 w = Inr (Analysis r')
        \<and> current_spread r' = Some (Fin x) \<and> series_spread r' = []"
    by blast
next
  have h: "hedge_stage sample_extern (aligned_frame step_prices unit_prices) = Inr (Fin 1, Fin 0)"
    by (simp add: hedge_stage_short more_sample_frames)
  from analyze_pair_returns[OF _ _ h, of 4 "''btcusdt''" "''ethusdt''"]
  have "\<exists>r. analyze_pair sample_extern ''btcusdt'' ''ethusdt'' step_prices unit_prices 4 = Inr (Analysis r)
          \<and> current_zscore r = Some (Fin (1 / 2)) \<and> series_zscore r = []"
    by (auto simp: more_sample_frames build_result_fields more_sample_spreads plateau_zscore
                   single_point_gated last_value_def sanitize_value_def)
  then show "\<exists>L' a b p1 p2 w r' x.
          analyze_pair L' a b p1 p2 w = Inr (Analysis r')
        \<and> current_zscore r' = Some (Fin x) \<and> series_zscore r' = []"
    by blast
qed

theorem current_values_are_last_ungated_witness:
  "(\<exists>r. analyze_pair sample_extern ''btcusdt'' ''ethusdt'' mixed_prices unit_prices 5 = Inr (Analysis r)
      \<and> spread_stage (aligned_frame mixed_prices unit_prices) (Fin 1) =
           [(0, Fin 0), (60000, Fin 1), (120000, Fin 4), (180000, Fin 3), (240000, Fin 2)]
      \<and> current_spread r = Some (Fin 2))
   \<and> (\<exists>r. analyze_pair sample_extern ''btcusdt'' ''ethusdt'' step_prices unit_prices 4 = Inr (Analysis r)
      \<and> zscore_stage (spread_stage (aligned_frame step_prices unit_prices) (Fin 1)) 4 =
           Inr [(180000, Fin (1 / 2))]
      \<and> current_zscore r = Some (Fin (1 / 2))
      \<and> series_zscore r = [])"
proof (intro conjI)
  have h: "hedge_stage sample_extern (aligned_frame mixed_prices unit_prices) = Inr (Fin 1, Fin 0)"
    by (simp add: hedge_stage_short more_sample_frames)
  from analyze_pair_returns[OF _ _ h, of 5 "''btcusdt''" "''ethusdt''"]
  obtain r where
    r: "analyze_pair sample_extern ''btcusdt'' ''ethusdt'' mixed_prices unit_prices 5 = Inr (Analysis r)"
    by (auto simp: more_sample_frames)
  from current_values_are_last_ungated[of sample_extern "''btcusdt''" "''ethusdt''"
         mixed_prices unit_prices 5 r] r h
  have "current_spread r = Some (Fin 2)"
    by (auto simp: more_sample_spreads)
  with r show "\<exists>r. analyze_pair sample_extern ''btcusdt'' ''ethusdt'' mixed_prices unit_prices 5 = Inr (Analysis r)
      \<and> spread_stage (aligned_frame mixed_prices unit_prices) (Fin 1) =
           [(0, Fin 0), (60000, Fin 1), (120000, Fin 4), (180000, Fin 3), (240000, Fin 2)]
      \<and> current_spread r = Some (Fin 2)"
    using more_sample_spreads(1) by blast
next
  have h: "hedge_stage sample_extern (aligned_frame step_prices unit_prices) = Inr (Fin 1, Fin 0)"
    by (simp add: hedge_stage_short more_sample_frames)
  have zs: "zscore_stage (spread_stage (aligned_frame step_prices unit_prices) (Fin 1)) 4 =
              Inr [(180000, Fin (1 / 2))]"
    by (simp only: more_sample_spreads plateau_zscore)
  from analyze_pair_returns[OF _ _ h, of 4 "''btcusdt''" "''ethusdt''"]
  obtain r where
    r: "analyze_pair sample_extern ''btcusdt'' ''ethusdt'' step_prices unit_prices 4 = Inr (Analysis r)"
    by (auto simp: more_sample_frames)
  from current_values_are_last_ungated[of sample_extern "''btcusdt''" "''ethusdt''"
         step_prices unit_prices 4 r] r h zs
  have "current_zscore r = Some (Fin (1 / 2)) \<and> series_zscore r = []"
    by (auto simp: single_point_gated)
  with r zs show "\<exists>r. analyze_pair sample_extern ''btcusdt'' ''ethusdt'' step_prices unit_prices 4 = Inr (Analysis r)
      \<and> zscore_stage (spread_stage (aligned_frame step_prices unit_prices) (Fin 1)) 4 =
           Inr [(180000, Fin (1 / 2))]
      \<and> current_zscore r = Some (Fin (1 / 2))
      \<and> series_zscore r = []"
    by blast
qed

section \<open>Properties of the tick store\<close>

subsection \<open>Dictionaries and the tick buffer\<close>

lemma map_of_dict_set: "map_of (dict_set d k v) = (map_of d)(k \<mapsto> v)"
  by (induction d) (auto simp: fun_eq_iff)

lemma keys_dict_set: "set (map fst (dict_set d k v)) = insert k (set (map fst d))"
  by (induction d) auto

lemma dict_set_same: "map_of d k = Some v \<Longrightarrow> dict_set d k v = d"
  by (induction d) (auto split: if_splits)

lemma dict_set_idem: "dict_set (dict_set d k v) k v = dict_set d k v"
  by (rule dict_set_same) (simp add: map_of_dict_set)

lemma map_of_dd_get:
  "map_of (fst (dd_get dflt d k)) = (case map_of d k of None \<Rightarrow> (map_of d)(k \<mapsto> dflt) | Some v \<Rightarrow> map_of d)"
  by (auto simp: dd_get_def fun_eq_iff map_add_def split: option.splits)

lemma snd_dd_get:
  "snd (dd_get dflt d k) = (case map_of d k of None \<Rightarrow> dflt | Some v \<Rightarrow> v)"
  by (simp add: dd_get_def split: option.splits)

lemma keys_dd_get: "set (map fst (fst (dd_get dflt d k))) = insert k (set (map fst d))"
  by (auto simp: dd_get_def map_of_eq_None_iff[symmetric] split: option.splits)
     (metis domI domIff map_of_eq_None_iff list.set_map)

lemma dd_get_dd_get:
  "dd_get dflt (fst (dd_get dflt d k)) k = (fst (dd_get dflt d k), snd (dd_get dflt d k))"
  by (auto simp: dd_get_def split: option.splits)

text \<open>The tick buffer of one symbol under each operation.\<close>

lemma buffer_of_add_tick:
  "buffer_of (add_tick st t) symbol =
     (if tick_symbol t = symbol then deque_append (buffer_of st symbol) t else buffer_of st symbol)"
  by (auto simp: buffer_of_def add_tick_def Let_def map_of_dict_set map_of_dd_get snd_dd_get
           split: option.splits)

lemma buffer_of_get_recent_ticks:
  "buffer_of (fst (get_recent_ticks st s limit)) symbol = buffer_of st symbol"
  by (auto simp: buffer_of_def get_recent_ticks_def Let_def map_of_dd_get split: option.splits)

lemma tick_buffer_resample:
  "tick_buffer (fst (resample_to_ohlcv st s tf n)) = tick_buffer (fst (get_recent_ticks st s 1000))"
  by (simp add: resample_to_ohlcv_def Let_def)

lemma buffer_of_resample:
  "buffer_of (fst (resample_to_ohlcv st s tf n)) symbol = buffer_of st symbol"
  using buffer_of_get_recent_ticks[of st s 1000 symbol]
  by (simp add: buffer_of_def tick_buffer_resample)

lemma buffer_of_exec_op:
  "buffer_of (exec_op st op) symbol = foldl deque_append (buffer_of st symbol) (added_ticks [op] symbol)"
  by (cases op) (simp_all add: buffer_of_add_tick buffer_of_get_recent_ticks buffer_of_resample)

lemma added_ticks_Cons: "added_ticks (op # ops) symbol = added_ticks [op] symbol @ added_ticks ops symbol"
  by (cases op) simp_all

lemma buffer_of_run_ops:
  "buffer_of (run_ops st ops) symbol = foldl deque_append (buffer_of st symbol) (added_ticks ops symbol)"
proof (induction ops arbitrary: st)
  case Nil
  then show ?case by (simp add: run_ops_def)
next
  case (Cons op ops)
  have "buffer_of (run_ops st (op # ops)) symbol = buffer_of (run_ops (exec_op st op) ops) symbol"
    by (simp add: run_ops_def)
  also have "\<dots> = foldl deque_append (buffer_of (exec_op st op) symbol) (added_ticks ops symbol)"
    by (rule Cons.IH)
  also have "\<dots> = foldl deque_append (buffer_of st symbol) (added_ticks [op] symbol @ added_ticks ops symbol)"
    by (simp add: buffer_of_exec_op)
  finally show ?case by (simp add: added_ticks_Cons[of op ops])
qed

text \<open>A bounded deque holds the last \<open>maxlen\<close> items appended to it.\<close>

lemma deque_append_last:
  assumes "length dq \<le> maxlen"
  shows "deque_append dq x = drop (length (dq @ [x]) - maxlen) (dq @ [x])"
proof -
  define d where "d = dq @ [x]"
  have len: "length d = Suc (length dq)" by (simp add: d_def)
  have "(if maxlen < length d then tl d else d) = drop (length d - maxlen) d"
  proof (cases "maxlen < length d")
    case True
    with assms len have "length d - maxlen = Suc 0" by simp
    moreover have "tl d = drop (Suc 0) d" by (simp add: drop_Suc)
    ultimately show ?thesis using True by simp
  next
    case False
    then show ?thesis by simp
  qed
  then show ?thesis unfolding deque_append_def Let_def d_def .
qed

lemma drop_last_snoc:
  "drop (length (drop (length ys - n) ys @ [x]) - n) (drop (length ys - n) ys @ [x])
     = drop (length (ys @ [x]) - n) (ys @ [x])"
proof (cases "length ys < n")
  case True
  then show ?thesis by simp
next
  case False
  then have e: "Suc (length ys) - n = Suc (length ys - n)" by simp
  from False have "length (drop (length ys - n) ys) = n" by simp
  then have "drop (length (drop (length ys - n) ys @ [x]) - n) (drop (length ys - n) ys @ [x])
               = drop (Suc 0) (drop (length ys - n) ys @ [x])"
    by simp
  also have "\<dots> = drop (Suc (length ys - n)) (ys @ [x])"
    using False by (simp add: drop_Suc tl_drop)
  finally show ?thesis using e by simp
qed

lemma foldl_deque_append:
  "foldl deque_append (drop (length ys - maxlen) ys) xs = drop (length (ys @ xs) - maxlen) (ys @ xs)"
proof (induction xs arbitrary: ys)
  case Nil
  then show ?case by simp
next
  case (Cons x xs)
  let ?dq = "drop (length ys - maxlen) ys"
  have le: "length ?dq \<le> maxlen" by simp
  have "deque_append ?dq x = drop (length (?dq @ [x]) - maxlen) (?dq @ [x])"
    by (rule deque_append_last[OF le])
  also have "\<dots> = drop (length (ys @ [x]) - maxlen) (ys @ [x])"
    by (rule drop_last_snoc)
  finally have "foldl deque_append ?dq (x # xs) =
                  foldl deque_append (drop (length (ys @ [x]) - maxlen) (ys @ [x])) xs"
    by simp
  also have "\<dots> = drop (length ((ys @ [x]) @ xs) - maxlen) ((ys @ [x]) @ xs)"
    by (rule Cons.IH)
  finally show ?case by simp
qed

lemma buffer_of_init: "buffer_of init_storage symbol = []"
  by (simp add: buffer_of_def init_storage_def)

lemma buffer_is_last_maxlen:
  "buffer_of (run_ops init_storage ops) symbol =
     drop (length (added_ticks ops symbol) - maxlen) (added_ticks ops symbol)"
  using foldl_deque_append[of "[]" "added_ticks ops symbol"]
  by (simp add: buffer_of_run_ops buffer_of_init)

text \<open>
  Claim C8. After any sequence of operations on a fresh store, the buffer of a symbol
  holds at most 10000 ticks; once more than 10000 ticks of the symbol were added it
  holds exactly the last 10000 of them, in the order of their insertion, oldest first.
\<close>

theorem tick_buffer_bounded:
  "length (buffer_of (run_ops init_storage ops) symbol) \<le> 10000
   \<and> (10000 < length (added_ticks ops symbol) \<longrightarrow>
        buffer_of (run_ops init_storage ops) symbol =
          drop (length (added_ticks ops symbol) - 10000) (added_ticks ops symbol))"
  by (simp add: buffer_is_last_maxlen maxlen_def)

lemma added_ticks_map_Add_tick:
  "added_ticks (map Add_tick ts) symbol = filter (\<lambda>t. tick_symbol t = symbol) ts"
  by (induction ts) simp_all

theorem tick_buffer_bounded_witness:
  "length (added_ticks (map (\<lambda>i. Add_tick (sample_tick ''btcusdt'' (int i) (Fin 1))) [0..<10001]) ''btcusdt'') = 10001
   \<and> buffer_of (run_ops init_storage
        (map (\<lambda>i. Add_tick (sample_tick ''btcusdt'' (int i) (Fin 1))) [0..<10001])) ''btcusdt''
      = map (\<lambda>i. sample_tick ''btcusdt'' (int i) (Fin 1)) [1..<10001]"
proof -
  let ?ts = "map (\<lambda>i. sample_tick ''btcusdt'' (int i) (Fin 1)) [0..<10001]"
  have m: "map (\<lambda>i. Add_tick (sample_tick ''btcusdt'' (int i) (Fin 1))) [0..<10001] = map Add_tick ?ts"
    by simp
  have a: "added_ticks (map Add_tick ?ts) ''btcusdt'' = ?ts"
    unfolding added_ticks_map_Add_tick by (simp add: sample_tick_def filter_map comp_def)
  have l: "length ?ts = 10001" by simp
  have d: "drop (10001 - 10000) ?ts = map (\<lambda>i. sample_tick ''btcusdt'' (int i) (Fin 1)) [1..<10001]"
    by (simp add: drop_map)
  from tick_buffer_bounded[of "map Add_tick ?ts" "''btcusdt''"]
  show ?thesis unfolding m a l using d by simp
qed

text \<open>
  Claim C5 fails on the code: reading the ticks of a symbol that never received one
  inserts the symbol into \<open>tick_buffer\<close>, and \<open>get_all_symbols\<close> lists it.
\<close>

theorem queried_symbol_is_listed:
  "get_all_symbols (run_ops init_storage [Get_recent_ticks ''ethusdt'' 1000]) = [''ethusdt'']
   \<and> added_ticks [Get_recent_ticks ''ethusdt'' 1000] ''ethusdt'' = []"
  by code_simp

subsection \<open>Resampling\<close>

lemma get_recent_ticks_stable:
  assumes "tick_buffer st' = tick_buffer (fst (get_recent_ticks st s limit))"
  shows "get_recent_ticks st' s limit = (st', snd (get_recent_ticks st s limit))"
proof -
  from assms have tb: "tick_buffer st' = fst (dd_get [] (tick_buffer st) s)"
    by (simp add: get_recent_ticks_def Let_def)
  have "dd_get [] (tick_buffer st') s = (tick_buffer st', snd (dd_get [] (tick_buffer st) s))"
    unfolding tb by (rule dd_get_dd_get)
  then show ?thesis
    by (simp add: get_recent_ticks_def Let_def)
qed

lemma recent_ticks_of_buffer:
  "tick_buffer st' = tick_buffer st \<Longrightarrow>
   snd (get_recent_ticks st' s limit) = snd (get_recent_ticks st s limit)"
  by (simp add: get_recent_ticks_def Let_def)

lemma resample_result_of_buffer:
  "tick_buffer st' = tick_buffer st \<Longrightarrow>
   snd (resample_to_ohlcv st' s tf n) = snd (resample_to_ohlcv st s tf n)"
  using recent_ticks_of_buffer[of st' st s 1000]
  by (simp add: resample_to_ohlcv_def Let_def)

lemma store_again:
  assumes "R' = dict_set (fst (dd_get [] R s)) s (dict_set (snd (dd_get [] R s)) tf v)"
  shows "dict_set (fst (dd_get [] R' s)) s (dict_set (snd (dd_get [] R' s)) tf v) = R'"
proof -
  have m: "map_of R' s = Some (dict_set (snd (dd_get [] R s)) tf v)"
    unfolding assms by (simp add: map_of_dict_set)
  then have "dd_get [] R' s = (R', dict_set (snd (dd_get [] R s)) tf v)"
    by (simp add: dd_get_def)
  then show ?thesis using m by (simp add: dict_set_idem dict_set_same)
qed

lemma resample_unfold:
  assumes "get_recent_ticks st s 1000 = (st1, ticks)"
  shows "resample_to_ohlcv st s tf n =
           (if length ticks < 2 then (st1, Inr None)
            else if n \<le> 0 then (st1, Inl ValueError)
            else (st1 \<lparr> resampled_data :=
                          dict_set (fst (dd_get [] (resampled_data st1) s)) s
                            (dict_set (snd (dd_get [] (resampled_data st1) s)) tf
                               (dropna_close (resample_agg ticks n))) \<rparr>,
                  Inr (Some (dropna_close (resample_agg ticks n)))))"
  unfolding resample_to_ohlcv_def Let_def assms fst_conv snd_conv ..

lemma resample_again:
  "resample_to_ohlcv (fst (resample_to_ohlcv st s tf n)) s tf n = resample_to_ohlcv st s tf n"
proof -
  obtain st1 ticks where g1: "get_recent_ticks st s 1000 = (st1, ticks)"
    by (cases "get_recent_ticks st s 1000")
  define ohlcv where "ohlcv = dropna_close (resample_agg ticks n)"
  define R' where "R' = dict_set (fst (dd_get [] (resampled_data st1) s)) s
                          (dict_set (snd (dd_get [] (resampled_data st1) s)) tf ohlcv)"
  have g: "get_recent_ticks st' s 1000 = (st', ticks)" if "tick_buffer st' = tick_buffer st1" for st'
    using get_recent_ticks_stable[of st' st s 1000] that g1 by simp
  note first = resample_unfold[OF g1, of tf n, folded ohlcv_def, folded R'_def]
  show ?thesis
  proof (cases "length ticks < 2 \<or> n \<le> 0")
    case True
    then have r1: "resample_to_ohlcv st s tf n =
                     (if length ticks < 2 then (st1, Inr None) else (st1, Inl ValueError))"
      unfolding first by auto
    then have "fst (resample_to_ohlcv st s tf n) = st1" by simp
    moreover have "resample_to_ohlcv st1 s tf n =
                     (if length ticks < 2 then (st1, Inr None) else (st1, Inl ValueError))"
      unfolding resample_unfold[OF g[of st1, OF refl]] using True by auto
    ultimately show ?thesis using r1 by simp
  next
    case False
    define st2 where "st2 = st1 \<lparr> resampled_data := R' \<rparr>"
    from False have f: "resample_to_ohlcv st s tf n = (st2, Inr (Some ohlcv))"
      unfolding first st2_def by simp
    have tb: "tick_buffer st2 = tick_buffer st1" by (simp add: st2_def)
    have rd: "resampled_data st2 = R'" by (simp add: st2_def)
    have again: "dict_set (fst (dd_get [] R' s)) s (dict_set (snd (dd_get [] R' s)) tf ohlcv) = R'"
      by (rule store_again) (rule R'_def)
    have same: "st2 \<lparr> resampled_data := R' \<rparr> = st2" by (simp add: st2_def)
    have "resample_to_ohlcv st2 s tf n = (st2, Inr (Some ohlcv))"
      unfolding resample_unfold[OF g[of st2, OF tb]] rd ohlcv_def[symmetric] again same
      using False by simp
    with f show ?thesis by simp
  qed
qed

text \<open>
  Claim C6. Resampling a symbol a second time, with no tick added in between, returns
  the same bars as the first time and leaves the in-memory table (indeed the whole
  store) as the first invocation left it; and the bars depend on the tick buffer only.
\<close>

theorem resample_twice:
  "snd (resample_to_ohlcv (fst (resample_to_ohlcv st symbol timeframe seconds)) symbol timeframe seconds)
     = snd (resample_to_ohlcv st symbol timeframe seconds)
   \<and> resampled_data
        (fst (resample_to_ohlcv (fst (resample_to_ohlcv st symbol timeframe seconds))
                symbol timeframe seconds))
     = resampled_data (fst (resample_to_ohlcv st symbol timeframe seconds))
   \<and> (\<forall>st'. tick_buffer st' = tick_buffer st \<longrightarrow>
         snd (resample_to_ohlcv st' symbol timeframe seconds)
           = snd (resample_to_ohlcv st symbol timeframe seconds))"
proof (intro conjI allI impI)
  show "snd (resample_to_ohlcv (fst (resample_to_ohlcv st symbol timeframe seconds))
               symbol timeframe seconds)
          = snd (resample_to_ohlcv st symbol timeframe seconds)"
    by (simp only: resample_again)
  show "resampled_data
          (fst (resample_to_ohlcv (fst (resample_to_ohlcv st symbol timeframe seconds))
                  symbol timeframe seconds))
          = resampled_data (fst (resample_to_ohlcv st symbol timeframe seconds))"
    by (simp only: resample_again)
  fix st' :: storage assume "tick_buffer st' = tick_buffer st"
  then show "snd (resample_to_ohlcv st' symbol timeframe seconds)
               = snd (resample_to_ohlcv st symbol timeframe seconds)"
    by (rule resample_result_of_buffer)
qed

lemma two_tick_bars:
  "snd (resample_to_ohlcv (run_ops init_storage two_tick_ops) ''btcusdt'' ''1m'' 60) =
   Inr (Some [\<lparr> bar_ts = 0, bar_open = Fin 1, bar_high = Fin 1, bar_low = Fin 1,
                bar_close = Fin 1, bar_volume = Fin 1 \<rparr>,
              \<lparr> bar_ts = 60000, bar_open = Fin 2, bar_high = Fin 2, bar_low = Fin 2,
                bar_close = Fin 2, bar_volume = Fin 1 \<rparr>])"
  by code_simp

theorem resample_twice_witness:
  "snd (resample_to_ohlcv
          (fst (resample_to_ohlcv (run_ops init_storage two_tick_ops) ''btcusdt'' ''1m'' 60))
          ''btcusdt'' ''1m'' 60) =
   Inr (Some [\<lparr> bar_ts = 0, bar_open = Fin 1, bar_high = Fin 1, bar_low = Fin 1,
                bar_close = Fin 1, bar_volume = Fin 1 \<rparr>,
              \<lparr> bar_ts = 60000, bar_open = Fin 2, bar_high = Fin 2, bar_low = Fin 2,
                bar_close = Fin 2, bar_volume = Fin 1 \<rparr>])"
  using resample_twice[of "run_ops init_storage two_tick_ops" "''btcusdt''" "''1m''" 60]
  by (simp add: two_tick_bars)

subsection \<open>The endpoint \<open>get_ohlcv\<close>\<close>

text \<open>
  Claim C10, amended. The bars returned by the endpoint have no NaN among open, high,
  low, close and volume, and their number is 0 or at least 2. (An infinite value is not
  filtered, see the counterexample.)
\<close>

theorem get_ohlcv_rows:
  assumes "get_ohlcv st symbol timeframe limit = Inr data"
  shows "(\<forall>b\<in>set data. \<not> isnan (bar_open b) \<and> \<not> isnan (bar_high b) \<and> \<not> isnan (bar_low b)
                       \<and> \<not> isnan (bar_close b) \<and> \<not> isnan (bar_volume b))
         \<and> (length data = 0 \<or> 2 \<le> length data)"
  using assms
  by (auto simp: get_ohlcv_def Let_def row_isna_any_def split: if_splits)

theorem get_ohlcv_rows_witness:
  "get_ohlcv (fst (resample_to_ohlcv (run_ops init_storage two_tick_ops) ''btcusdt'' ''1m'' 60))
     ''btcusdt'' ''1m'' 1000 =
   Inr [\<lparr> bar_ts = 0, bar_open = Fin 1, bar_high = Fin 1, bar_low = Fin 1,
          bar_close = Fin 1, bar_volume = Fin 1 \<rparr>,
        \<lparr> bar_ts = 60000, bar_open = Fin 2, bar_high = Fin 2, bar_low = Fin 2,
          bar_close = Fin 2, bar_volume = Fin 1 \<rparr>]
   \<and> 2 \<le> length [\<lparr> bar_ts = 0, bar_open = Fin 1, bar_high = Fin 1, bar_low = Fin 1,
          bar_close = Fin 1, bar_volume = Fin 1 \<rparr>,
        \<lparr> bar_ts = 60000, bar_open = Fin 2, bar_high = Fin 2, bar_low = Fin 2,
          bar_close = Fin 2, bar_volume = Fin 1 \<rparr>]"
proof -
  have e: "get_ohlcv (fst (resample_to_ohlcv (run_ops init_storage two_tick_ops) ''btcusdt'' ''1m'' 60))
     ''btcusdt'' ''1m'' 1000 =
   Inr [\<lparr> bar_ts = 0, bar_open = Fin 1, bar_high = Fin 1, bar_low = Fin 1,
          bar_close = Fin 1, bar_volume = Fin 1 \<rparr>,
        \<lparr> bar_ts = 60000, bar_open = Fin 2, bar_high = Fin 2, bar_low = Fin 2,
          bar_close = Fin 2, bar_volume = Fin 1 \<rparr>]"
    by code_simp
  from get_ohlcv_rows[OF e] e show ?thesis by simp
qed

theorem get_ohlcv_infinite_counterexample:
  "get_ohlcv (run_ops init_storage inf_tick_ops) ''btcusdt'' ''1m'' 1000 =
   Inr [\<lparr> bar_ts = 0, bar_open = PInf, bar_high = PInf, bar_low = PInf, bar_close = PInf,
          bar_volume = Fin 1 \<rparr>,
        \<lparr> bar_ts = 60000, bar_open = PInf, bar_high = PInf, bar_low = PInf, bar_close = PInf,
          bar_volume = Fin 1 \<rparr>]
   \<and> isinf (bar_close \<lparr> bar_ts = 0, bar_open = PInf, bar_high = PInf, bar_low = PInf,
                         bar_close = PInf, bar_volume = Fin 1 \<rparr>)"
  by code_simp

end
